theory Spec2Isabelle
  imports Main "HOL-Library.Word"
begin

chapter \<open>The request bridge of sveltekit-adapter-cli\<close>

text \<open>
  A shallow embedding of the runtime files of the adapter: the line reader
  (\<^verbatim>\<open>readline.ts\<close>), the static file resolver, the dispatcher, the response serializer and
  the request assembler (\<^verbatim>\<open>handle.ts\<close>) and the \<^verbatim>\<open>render\<close> command (\<^verbatim>\<open>index.ts\<close> of the
  runtime files). Strings are lists of characters, buffers are lists of bytes,
  \<^verbatim>\<open>undefined\<close> and \<^verbatim>\<open>null\<close> are \<open>None\<close>, a thrown error is the left summand of a sum
  type. Numbers are integers: the model is exact where the program's doubles are, below
  \<open>2 ^ 53\<close>. The first part holds the model, the second its properties.
\<close>

section \<open>Values of the runtime\<close>

type_synonym byte = "8 word"

datatype error = URIError | SyntaxError | TypeError string | Error string

subsection \<open>Strings\<close>

text \<open>\<^verbatim>\<open>s.startsWith(p)\<close>, \<^verbatim>\<open>s.endsWith(p)\<close>, \<^verbatim>\<open>s.includes(p)\<close>, \<^verbatim>\<open>s.split(sep)\<close>.\<close>

definition startsWith :: "string \<Rightarrow> string \<Rightarrow> bool" where
  "startsWith s p = (take (length p) s = p)"

definition endsWith :: "string \<Rightarrow> string \<Rightarrow> bool" where
  "endsWith s p = (length p \<le> length s \<and> drop (length s - length p) s = p)"

fun includes_str :: "string \<Rightarrow> string \<Rightarrow> bool" where
  "includes_str [] p = (p = [])"
| "includes_str (c # cs) p = (startsWith (c # cs) p \<or> includes_str cs p)"

fun split_on :: "char \<Rightarrow> string \<Rightarrow> string list" where
  "split_on sep [] = [[]]"
| "split_on sep (c # cs) =
     (if c = sep then [] # split_on sep cs
      else (case split_on sep cs of [] \<Rightarrow> [[c]] | s # ss \<Rightarrow> (c # s) # ss))"

text \<open>\<^verbatim>\<open>s.trim()\<close>, on the white space of ASCII.\<close>

definition is_space :: "char \<Rightarrow> bool" where
  "is_space c = (c \<in> set [CHR '' '', CHR 0x09, CHR 0x0A, CHR 0x0B, CHR 0x0C, CHR 0x0D])"

definition trim :: "string \<Rightarrow> string" where
  "trim s = rev (dropWhile is_space (rev (dropWhile is_space s)))"

text \<open>\<^verbatim>\<open>s.toUpperCase()\<close>, on the letters of ASCII.\<close>

definition upper_char :: "char \<Rightarrow> char" where
  "upper_char c =
     (case map_of (zip ''abcdefghijklmnopqrstuvwxyz'' ''ABCDEFGHIJKLMNOPQRSTUVWXYZ'') c of
        Some u \<Rightarrow> u
      | None \<Rightarrow> c)"

definition toUpperCase :: "string \<Rightarrow> string" where
  "toUpperCase s = map upper_char s"

text \<open>
  A template literal \<^verbatim>\<open>`${v}`\<close> of a value that is a string or \<^verbatim>\<open>undefined\<close>: the text
  of \<^verbatim>\<open>undefined\<close> is the nine letters of its name.
\<close>

definition template_string :: "string option \<Rightarrow> string" where
  "template_string v = (case v of None \<Rightarrow> ''undefined'' | Some s \<Rightarrow> s)"

text \<open>The bytes of a string of ASCII.\<close>

definition utf8_bytes :: "string \<Rightarrow> byte list" where
  "utf8_bytes s = map of_char s"

text \<open>\<^verbatim>\<open>Buffer.from(bytes).toString('base64')\<close>\<close>

definition base64_alphabet :: string where
  "base64_alphabet = ''ABCDEFGHIJKLMNOPQRSTUVWXYZabcdefghijklmnopqrstuvwxyz0123456789+/''"

text \<open>
  Three bytes give four digits of six bits each; one or two bytes left over give two or
  three digits and padding.
\<close>

definition base64_digit :: "nat \<Rightarrow> char" where
  "base64_digit n = base64_alphabet ! n"

fun base64 :: "byte list \<Rightarrow> string" where
  "base64 (a # b # c # rest) =
     [base64_digit (unat a div 4),
      base64_digit (unat a mod 4 * 16 + unat b div 16),
      base64_digit (unat b mod 16 * 4 + unat c div 64),
      base64_digit (unat c mod 64)] @ base64 rest"
| "base64 [a, b] =
     [base64_digit (unat a div 4),
      base64_digit (unat a mod 4 * 16 + unat b div 16),
      base64_digit (unat b mod 16 * 4),
      CHR ''='']"
| "base64 [a] =
     [base64_digit (unat a div 4),
      base64_digit (unat a mod 4 * 16),
      CHR ''='', CHR ''='']"
| "base64 [] = []"

subsection \<open>Numbers\<close>

text \<open>
  \<^verbatim>\<open>\d\<close> of a regular expression, the unary \<^verbatim>\<open>+\<close> on a string of digits with an optional
  minus sign (the only strings the program applies it to), and \<^verbatim>\<open>`${n}`\<close> of an integer.
\<close>

definition is_digit :: "char \<Rightarrow> bool" where
  "is_digit c = (c \<in> set ''0123456789'')"

definition digit_val :: "char \<Rightarrow> nat" where
  "digit_val c = of_char c - 48"

definition digits_to_nat :: "string \<Rightarrow> nat" where
  "digits_to_nat ds = foldl (\<lambda>n c. 10 * n + digit_val c) 0 ds"

definition to_number :: "string \<Rightarrow> int" where
  "to_number s =
     (case s of
        [] \<Rightarrow> 0
      | c # cs \<Rightarrow> if c = CHR ''-'' then - int (digits_to_nat cs) else int (digits_to_nat (c # cs)))"

fun show_nat :: "nat \<Rightarrow> string" where
  "show_nat n =
     (if n < 10 then [''0123456789'' ! n]
      else show_nat (n div 10) @ [''0123456789'' ! (n mod 10)])"

declare show_nat.simps [simp del]

definition show_int :: "int \<Rightarrow> string" where
  "show_int i = (if i < 0 then CHR ''-'' # show_nat (nat (- i)) else show_nat (nat i))"

text \<open>Truthiness of a string that may be \<^verbatim>\<open>undefined\<close>: the empty string is falsy.\<close>

definition truthy_str :: "string option \<Rightarrow> bool" where
  "truthy_str x = (case x of None \<Rightarrow> False | Some s \<Rightarrow> s \<noteq> [])"

subsection \<open>Headers\<close>

text \<open>
  A \<^verbatim>\<open>Headers\<close> object is the list of its entries. Names are stored in lower case and a
  value without its leading and trailing HTTP white space; \<^verbatim>\<open>get\<close> joins the values of a
  name with a comma and a space. The position of an entry in the list stands for nothing:
  \<^verbatim>\<open>set\<close> drops the entries of the name and adds the new one.
\<close>

type_synonym headers = "(string \<times> string) list"

definition lower_char :: "char \<Rightarrow> char" where
  "lower_char c =
     (case map_of (zip ''ABCDEFGHIJKLMNOPQRSTUVWXYZ'' ''abcdefghijklmnopqrstuvwxyz'') c of
        Some l \<Rightarrow> l
      | None \<Rightarrow> c)"

definition header_key :: "string \<Rightarrow> string" where
  "header_key name = map lower_char name"

definition is_http_space :: "char \<Rightarrow> bool" where
  "is_http_space c = (c \<in> set [CHR '' '', CHR 0x09, CHR 0x0A, CHR 0x0D])"

definition header_value :: "string \<Rightarrow> string" where
  "header_value v = rev (dropWhile is_http_space (rev (dropWhile is_http_space v)))"

fun join_values :: "string list \<Rightarrow> string" where
  "join_values [] = []"
| "join_values [v] = v"
| "join_values (v # vs) = v @ '', '' @ join_values vs"

definition headers_has :: "headers \<Rightarrow> string \<Rightarrow> bool" where
  "headers_has hs name = (header_key name \<in> set (map fst hs))"

definition headers_get :: "headers \<Rightarrow> string \<Rightarrow> string option" where
  "headers_get hs name =
     (case filter (\<lambda>kv. fst kv = header_key name) hs of
        [] \<Rightarrow> None
      | kv # kvs \<Rightarrow> Some (join_values (map snd (kv # kvs))))"

definition headers_append :: "headers \<Rightarrow> string \<Rightarrow> string \<Rightarrow> headers" where
  "headers_append hs name v = hs @ [(header_key name, header_value v)]"

definition headers_set :: "headers \<Rightarrow> string \<Rightarrow> string \<Rightarrow> headers" where
  "headers_set hs name v =
     filter (\<lambda>kv. fst kv \<noteq> header_key name) hs @ [(header_key name, header_value v)]"

definition new_Headers :: "(string \<times> string) list \<Rightarrow> headers" where
  "new_Headers init = foldl (\<lambda>hs kv. headers_append hs (fst kv) (snd kv)) [] init"

section \<open>The line reader\<close>

text \<open>\<^verbatim>\<open>const LF = '\n'.charCodeAt(0)\<close>\<close>

definition LF :: byte where
  "LF = 10"

text \<open>\<^verbatim>\<open>Buffer.indexOf(byte)\<close>: the first position of the byte, \<open>None\<close> for \<^verbatim>\<open>-1\<close>.\<close>

fun indexOf :: "byte list \<Rightarrow> byte \<Rightarrow> nat option" where
  "indexOf [] b = None"
| "indexOf (x # xs) b = (if x = b then Some 0 else map_option Suc (indexOf xs b))"

lemma indexOf_less: "indexOf xs b = Some i \<Longrightarrow> i < length xs"
  by (induction xs arbitrary: i) (auto split: if_splits)

text \<open>
  The loop of \<^verbatim>\<open>_write\<close>:
  \<^verbatim>\<open>while (lf >= 0) { buff = this.#buff.subarray(0, lf); this.#buff = this.#buff.subarray(lf + 1);
  if (buff.length) this.emit('line', buff.toString('utf8')); lf = this.#buff.indexOf(LF); }\<close>
  The state of the loop is the buffer and the lines emitted so far; \<open>utf8\<close> is
  \<^verbatim>\<open>toString('utf8')\<close>.
\<close>

function while_lf :: "(byte list \<Rightarrow> 'l) \<Rightarrow> 'l list \<Rightarrow> byte list \<Rightarrow> 'l list \<times> byte list" where
  "while_lf utf8 emitted buff =
     (case indexOf buff LF of
        None \<Rightarrow> (emitted, buff)
      | Some lf \<Rightarrow>
          while_lf utf8
            (if take lf buff \<noteq> [] then emitted @ [utf8 (take lf buff)] else emitted)
            (drop (lf + 1) buff))"
  by pat_completeness auto
termination
  by (relation "measure (\<lambda>(u, e, b). length b)") (auto dest: indexOf_less)

declare while_lf.simps [simp del]

text \<open>
  \<^verbatim>\<open>_write(chunk)\<close>: the chunk is appended to the buffer, then the loop runs. The result is
  the lines emitted by this call and the buffer it leaves.
\<close>

definition write_chunk :: "(byte list \<Rightarrow> 'l) \<Rightarrow> byte list \<Rightarrow> byte list \<Rightarrow> 'l list \<times> byte list" where
  "write_chunk utf8 buff chunk = while_lf utf8 [] (buff @ chunk)"

text \<open>The stream calls \<^verbatim>\<open>_write\<close> once per chunk, in arrival order.\<close>

fun feed :: "(byte list \<Rightarrow> 'l) \<Rightarrow> byte list \<Rightarrow> byte list list \<Rightarrow> 'l list \<times> byte list" where
  "feed utf8 buff [] = ([], buff)"
| "feed utf8 buff (c # cs) =
     (case write_chunk utf8 buff c of (ls, b) \<Rightarrow>
        (case feed utf8 b cs of (ls', b') \<Rightarrow> (ls @ ls', b')))"

text \<open>
  The reference the reader is compared with, written from the words of the specification:
  the complete lines of an input are the runs of bytes before each newline, the delimiter
  excluded, and what follows the last newline is the unterminated rest. \<open>cur\<close> is the
  line being read.
\<close>

fun split_lines :: "byte list \<Rightarrow> byte list \<Rightarrow> byte list list \<times> byte list" where
  "split_lines cur [] = ([], cur)"
| "split_lines cur (x # xs) =
     (if x = LF then (case split_lines [] xs of (ls, r) \<Rightarrow> (cur # ls, r))
      else split_lines (cur @ [x]) xs)"

section \<open>Requests, responses and the world of the program\<close>

text \<open>
  A \<^verbatim>\<open>URL\<close> with the three parts the program reads; \<^verbatim>\<open>HandleOptions\<close>; the parts of a
  \<^verbatim>\<open>Request\<close> and of a \<^verbatim>\<open>Response\<close> the program reads and writes (a body is the bytes it
  streams); the fields of \<^verbatim>\<open>Stats\<close> the program uses. \<^verbatim>\<open>mtimeMs\<close> is a floating point
  number of which only the text \<^verbatim>\<open>`${stats.mtimeMs}`\<close> enters the program, and
  \<^verbatim>\<open>mtime_utc\<close> is \<^verbatim>\<open>stats.mtime.toUTCString()\<close>.
\<close>

record URL =
  origin :: string
  pathname :: string
  search :: string

record handle_options =
  opt_method :: string
  url :: URL
  clientIP :: "string option"
  static :: bool

record request =
  req_method :: string
  req_url :: URL
  req_headers :: headers

record response =
  status :: nat
  statusText :: string
  res_headers :: headers
  body :: "byte list option"

record stats =
  isFile :: bool
  size_bytes :: nat
  mtimeMs :: string
  mtime_utc :: string

text \<open>
  What the program asks of the file system, of its environment and of the runtime's
  library: \<^verbatim>\<open>existsSync\<close>, \<^verbatim>\<open>statSync\<close>, the bytes and the media type of
  \<^verbatim>\<open>Bun.file(path)\<close>, \<^verbatim>\<open>env.IGNORE_FILES\<close>, \<^verbatim>\<open>new Bun.Glob(pattern).match(candidate)\<close>,
  \<^verbatim>\<open>manifest.appDir\<close>, the directory of the program (\<^verbatim>\<open>SYM_BASE_PATH\<close>),
  \<^verbatim>\<open>decodeURIComponent\<close> on a string with a percent sign (\<open>None\<close> when it throws),
  \<^verbatim>\<open>path.normalize\<close>, \<^verbatim>\<open>new URL(reference, base).toString()\<close>, \<^verbatim>\<open>URL.canParse\<close> with
  \<^verbatim>\<open>new URL\<close>, whether \<^verbatim>\<open>Headers.append\<close> accepts a name and a value, the chunks in
  which a body's reader delivers its bytes, and the error, if any, that the write callback
  of standard output reports for the n-th write.
\<close>

record world =
  existsSync :: "string \<Rightarrow> bool"
  statSync :: "string \<Rightarrow> stats"
  file_bytes :: "string \<Rightarrow> byte list"
  file_type :: "string \<Rightarrow> string"
  IGNORE_FILES :: "string option"
  glob_match :: "string \<Rightarrow> string \<Rightarrow> bool"
  appDir :: string
  base_path :: string
  percent_decode :: "string \<Rightarrow> string option"
  normalize :: "string \<Rightarrow> string"
  url_href :: "string \<Rightarrow> URL \<Rightarrow> string"
  parse_url :: "string \<Rightarrow> URL option"
  valid_header :: "string \<Rightarrow> string \<Rightarrow> bool"
  body_chunks :: "byte list \<Rightarrow> byte list list"
  stdout_error :: "nat \<Rightarrow> error option"

text \<open>A string without a percent sign decodes to itself.\<close>

definition decodeURIComponent :: "world \<Rightarrow> string \<Rightarrow> string option" where
  "decodeURIComponent w s = (if CHR ''%'' \<notin> set s then Some s else percent_decode w s)"

section \<open>The static file resolver\<close>

text \<open>\<^verbatim>\<open>const tryFiles = ['.html', '.htm', '/index.html', '/index.htm']\<close>\<close>

definition tryFiles :: "string list" where
  "tryFiles = [''.html'', ''.htm'', ''/index.html'', ''/index.htm'']"

text \<open>\<^verbatim>\<open>statFile(path)\<close>: the stats of a path that exists and is a regular file.\<close>

definition statFile :: "world \<Rightarrow> string \<Rightarrow> stats option" where
  "statFile w path =
     (if \<not> existsSync w path then None
      else (let st = statSync w path in if \<not> isFile st then None else Some st))"

text \<open>
  \<^verbatim>\<open>lookup(path)\<close>: the path itself, then the loop over \<^verbatim>\<open>tryFiles\<close>; \<open>None\<close> is the
  source's \<^verbatim>\<open>['', null]\<close>.
\<close>

fun lookup_from :: "world \<Rightarrow> string \<Rightarrow> string list \<Rightarrow> (string \<times> stats) option" where
  "lookup_from w path [] = None"
| "lookup_from w path (t # ts) =
     (case statFile w (path @ t) of
        Some st \<Rightarrow> Some (path @ t, st)
      | None \<Rightarrow> lookup_from w path ts)"

definition lookup :: "world \<Rightarrow> string \<Rightarrow> (string \<times> stats) option" where
  "lookup w path =
     (case statFile w path of
        Some st \<Rightarrow> Some (path, st)
      | None \<Rightarrow> lookup_from w path tryFiles)"

text \<open>
  The match of \<^verbatim>\<open>/^bytes=(?:(\d+)\-(\d+)?|(\-\d+))/\<close>: the three groups, \<open>None\<close> for
  a group that did not take part. The first alternative needs digits and a minus sign,
  then takes the digits that follow, if any; the second a minus sign and digits.
\<close>

definition range_match :: "string \<Rightarrow> (string option \<times> string option \<times> string option) option" where
  "range_match rng =
     (if \<not> startsWith rng ''bytes='' then None
      else
       (let rest = drop 6 rng;
            d1 = takeWhile is_digit rest;
            r1 = dropWhile is_digit rest
        in
        if d1 \<noteq> [] \<and> startsWith r1 ''-'' then
          (let d2 = takeWhile is_digit (drop 1 r1)
           in Some (Some d1, if d2 = [] then None else Some d2, None))
        else if startsWith rest ''-'' \<and> takeWhile is_digit (drop 1 rest) \<noteq> [] then
          Some (None, None, Some (CHR ''-'' # takeWhile is_digit (drop 1 rest)))
        else None))"

text \<open>
  \<^verbatim>\<open>parseRange(header)\<close>:
  \<^verbatim>\<open>if (match[3]) return [+match[3], null]; return [+match[1], match[2] ? +match[2] + 1 : null]\<close>
\<close>

definition parseRange :: "headers \<Rightarrow> int option \<times> int option" where
  "parseRange header =
     (if \<not> headers_has header ''range'' then (None, None)
      else
       (case headers_get header ''range'' of
          None \<Rightarrow> (None, None)
        | Some rng \<Rightarrow>
           (case range_match rng of
              None \<Rightarrow> (None, None)
            | Some (m1, m2, m3) \<Rightarrow>
               if truthy_str m3 then (map_option to_number m3, None)
               else (map_option to_number m1,
                     if truthy_str m2 then map_option (\<lambda>d. to_number d + 1) m2 else None))))"

text \<open>\<^verbatim>\<open>.replace(/^\/$/, '')\<close>: the path that is one slash becomes the empty string.\<close>

definition replace_root :: "string \<Rightarrow> string" where
  "replace_root p = (if p = ''/'' then [] else p)"

text \<open>
  The block \<^verbatim>\<open>if (env.IGNORE_FILES) { ... if (glob.match(candidate)) return undefined }\<close>:
  whether a pattern of the list matches \<^verbatim>\<open>normalized.substring(1)\<close>.
\<close>

definition ignored :: "world \<Rightarrow> string \<Rightarrow> bool" where
  "ignored w normalized =
     (case IGNORE_FILES w of
        None \<Rightarrow> False
      | Some s \<Rightarrow>
         s \<noteq> [] \<and>
         list_ex (\<lambda>pat. glob_match w pat (drop 1 normalized)) (map trim (split_on CHR '','' s)))"

text \<open>
  \<^verbatim>\<open>serveStatic(request, options, basePath, cache)\<close>, branch by branch in the order of the
  source. \<open>Inr None\<close> is \<^verbatim>\<open>undefined\<close> (no match), \<open>Inl\<close> the error
  \<^verbatim>\<open>decodeURIComponent\<close> throws. \<^verbatim>\<open>!rangeStart\<close> holds of \<^verbatim>\<open>null\<close> and of zero,
  \<^verbatim>\<open>if (rangeEnd)\<close> of a number that is not zero. \<^verbatim>\<open>Bun.file(p).size\<close> is the number of
  bytes of the file, \<^verbatim>\<open>blob.slice(a, b)\<close> the bytes from \<open>a\<close> up to \<open>b\<close>, excluded.
\<close>

definition serveStatic ::
  "world \<Rightarrow> request \<Rightarrow> handle_options \<Rightarrow> string \<Rightarrow> bool \<Rightarrow> error + response option" where
  "serveStatic w request options basePath cache =
     (if \<not> existsSync w basePath then Inr None
      else if req_method request \<noteq> ''GET'' \<and> req_method request \<noteq> ''HEAD'' then Inr None
      else
       (case decodeURIComponent w (pathname (url options)) of
          None \<Rightarrow> Inl URIError
        | Some decoded \<Rightarrow>
           (let normalized = replace_root (normalize w decoded)
            in
            if ignored w normalized then Inr None
            else
             (case lookup w (basePath @ normalized) of
                None \<Rightarrow> Inr None
              | Some (resolvedPath, st) \<Rightarrow>
                 if pathname (url options) \<noteq> ''/'' \<and> endsWith (pathname (url options)) ''/''
                 then Inr (Some \<lparr>status = 302, statusText = [],
                        res_headers = new_Headers
                          [(''location'', url_href w (normalized @ search (url options)) (url options))],
                        body = None\<rparr>)
                 else
                  (let etag = ''W/'' @ show_nat (size_bytes st) @ ''-'' @ mtimeMs st;
                       rangeStart = fst (parseRange (req_headers request));
                       rangeEnd = snd (parseRange (req_headers request));
                       headers = new_Headers
                         [(''content-type'', file_type w resolvedPath),
                          (''content-length'', show_nat (size_bytes st)),
                          (''last-modified'', mtime_utc st),
                          (''etag'', etag)]
                   in
                   if headers_get (req_headers request) ''if-non-match'' = Some etag
                   then Inr (Some \<lparr>status = 304, statusText = [], res_headers = [], body = None\<rparr>)
                   else if headers_has (req_headers request) ''range'' then
                    (case rangeStart of
                       None \<Rightarrow>
                         Inr (Some \<lparr>status = 416, statusText = [],
                           res_headers = headers_set
                             (headers_set headers ''content-range''
                                (''bytes */'' @ show_nat (size_bytes st)))
                             ''content-length'' ''0'',
                           body = None\<rparr>)
                     | Some rs \<Rightarrow>
                        if rs = 0 then
                         Inr (Some \<lparr>status = 416, statusText = [],
                           res_headers = headers_set
                             (headers_set headers ''content-range''
                                (''bytes */'' @ show_nat (size_bytes st)))
                             ''content-length'' ''0'',
                           body = None\<rparr>)
                        else
                         (let startBytes =
                                (if rs < 0 then int (size_bytes st) + rs else rs);
                              endBytes =
                                (if rs < 0 then int (size_bytes st)
                                 else (case rangeEnd of
                                         None \<Rightarrow> int (size_bytes st)
                                       | Some re \<Rightarrow> if re \<noteq> 0 then re + 1 else int (size_bytes st)))
                          in
                          if endBytes \<le> startBytes \<or> startBytes < 0 \<or> endBytes > int (size_bytes st)
                          then
                           Inr (Some \<lparr>status = 416, statusText = [],
                             res_headers = headers_set
                               (headers_set headers ''content-range''
                                  (''bytes */'' @ show_nat (size_bytes st)))
                               ''content-length'' ''0'',
                             body = None\<rparr>)
                          else
                           Inr (Some \<lparr>status = 206, statusText = [],
                             res_headers = headers_set
                               (headers_set
                                  (headers_set headers ''content-range''
                                     (''bytes '' @ show_int startBytes @ ''-'' @ show_int (endBytes - 1)
                                        @ ''/'' @ show_nat (size_bytes st)))
                                  ''content-length'' (show_int (endBytes - startBytes)))
                               ''accept-range'' ''bytes'',
                             body = Some (take (nat (endBytes - startBytes))
                                            (drop (nat startBytes) (file_bytes w resolvedPath)))\<rparr>)))
                   else
                    (let headers' =
                           (if cache then
                              headers_set headers ''cache-control''
                                (if startsWith normalized (''/'' @ appDir w @ ''/immutable/'')
                                 then ''public,max-age=604800,immutable''
                                 else ''public,max-age=14400'')
                            else headers)
                     in
                     (case headers_get (req_headers request) ''accept-encoding'' of
                        None \<Rightarrow>
                          Inr (Some \<lparr>status = 200, statusText = [], res_headers = headers',
                                 body = Some (file_bytes w resolvedPath)\<rparr>)
                      | Some ac \<Rightarrow>
                         if existsSync w (resolvedPath @ ''.gz'') \<and> includes_str ac ''gzip'' then
                           Inr (Some \<lparr>status = 200, statusText = [],
                             res_headers = headers_set
                               (headers_set headers' ''content-length''
                                  (show_nat (length (file_bytes w (resolvedPath @ ''.gz'')))))
                               ''content-encoding'' ''gzip'',
                             body = Some (file_bytes w (resolvedPath @ ''.gz''))\<rparr>)
                         else if existsSync w (resolvedPath @ ''.br'') \<and> includes_str ac ''br'' then
                           Inr (Some \<lparr>status = 200, statusText = [],
                             res_headers = headers_set headers' ''content-encoding'' ''br'',
                             body = Some (file_bytes w (resolvedPath @ ''.br''))\<rparr>)
                         else
                           Inr (Some \<lparr>status = 200, statusText = [], res_headers = headers',
                                  body = Some (file_bytes w resolvedPath)\<rparr>))))))))"

section \<open>The dispatcher\<close>

text \<open>
  The framework's \<^verbatim>\<open>Server\<close>, opaque to the program: the error \<^verbatim>\<open>server.init\<close> throws,
  if any, and \<^verbatim>\<open>server.respond\<close>, which is handed the request and the client address
  resolver and returns a response, nothing, or throws.
\<close>

record framework =
  init_error :: "error option"
  respond :: "request \<Rightarrow> (unit \<Rightarrow> error + string) \<Rightarrow> error + response option"

text \<open>
  \<^verbatim>\<open>firstResolve(resolvers)\<close>: an absent resolver is skipped, the first response wins, a
  thrown error ends the loop, and the 404 response is what is left.
\<close>

fun firstResolve :: "(unit \<Rightarrow> error + response option) option list \<Rightarrow> error + response" where
  "firstResolve [] =
     Inr \<lparr>status = 404, statusText = [],
          res_headers = new_Headers [(''content-type'', ''text/plain'')],
          body = Some (utf8_bytes ''404 Not Found'')\<rparr>"
| "firstResolve (None # resolvers) = firstResolve resolvers"
| "firstResolve (Some resolver # resolvers) =
     (case resolver () of
        Inl err \<Rightarrow> Inl err
      | Inr None \<Rightarrow> firstResolve resolvers
      | Inr (Some res) \<Rightarrow> Inr res)"

text \<open>
  \<^verbatim>\<open>getClientAddress() { if (options.clientIP) return options.clientIP;
  throw new Error('Unable to determine client IP.') }\<close>
\<close>

definition getClientAddress :: "handle_options \<Rightarrow> unit \<Rightarrow> error + string" where
  "getClientAddress options u =
     (if truthy_str (clientIP options)
      then (case clientIP options of
              Some ip \<Rightarrow> Inr ip
            | None \<Rightarrow> Inl (Error ''Unable to determine client IP.''))
      else Inl (Error ''Unable to determine client IP.''))"

text \<open>\<^verbatim>\<open>serve(request, options)\<close>\<close>

definition serve :: "world \<Rightarrow> framework \<Rightarrow> request \<Rightarrow> handle_options \<Rightarrow> error + response" where
  "serve w server request options =
     firstResolve
       [if static options
        then Some (\<lambda>u. serveStatic w request options (base_path w @ ''/client'') True)
        else None,
        Some (\<lambda>u. serveStatic w request options (base_path w @ ''/prerendered'') False),
        Some (\<lambda>u. case init_error server of
                     Some err \<Rightarrow> Inl err
                   | None \<Rightarrow> respond server request (getClientAddress options))]"

section \<open>The response serializer\<close>

text \<open>The arrays \<^verbatim>\<open>writeOut\<close> prints, one per line.\<close>

datatype out_cmd =
    Status nat string
  | Header string string
  | StartBody
  | Data string
  | EndBody

text \<open>
  The awaited calls of \<^verbatim>\<open>writeOut\<close>, in order, from the n-th write of the process on: the
  first write whose callback reports an error rejects, and nothing is written after it. The
  result is what was written and the error, if any.
\<close>

fun writeOut_each :: "(nat \<Rightarrow> error option) \<Rightarrow> nat \<Rightarrow> out_cmd list \<Rightarrow> out_cmd list \<times> error option" where
  "writeOut_each failing n [] = ([], None)"
| "writeOut_each failing n (c # cs) =
     (case failing n of
        Some err \<Rightarrow> ([], Some err)
      | None \<Rightarrow> (case writeOut_each failing (Suc n) cs of (written, r) \<Rightarrow> (c # written, r)))"

text \<open>
  \<^verbatim>\<open>writeResponse(res, ignoreBody)\<close>. The headers are written in the order of the model's
  list; the body's reader delivers finitely many chunks, each written as \<^verbatim>\<open>data\<close>.
\<close>

definition writeResponse :: "world \<Rightarrow> response \<Rightarrow> bool \<Rightarrow> out_cmd list \<times> error option" where
  "writeResponse w res ignoreBody =
     writeOut_each (stdout_error w) 0
       ([Status (status res) (statusText res)]
        @ map (\<lambda>kv. Header (fst kv) (snd kv)) (res_headers res)
        @ [StartBody]
        @ (case body res of
             None \<Rightarrow> [EndBody]
           | Some b \<Rightarrow>
              if ignoreBody then [EndBody]
              else map (\<lambda>c. Data (base64 c)) (body_chunks w b) @ [EndBody]))"

section \<open>The render command\<close>

text \<open>
  The options the argument parser hands to the action of \<^verbatim>\<open>render\<close>: \<open>None\<close> is an
  option that is not a string (\<^verbatim>\<open>undefined\<close> when it was not given).
\<close>

record cli_opts =
  o_url :: "string option"
  o_method :: "string option"
  o_clientIp :: "string option"
  o_static :: bool

text \<open>\<^verbatim>\<open>const methods = new Set(['GET', 'HEAD', 'POST', 'PUT', 'PATCH', 'OPTIONS'])\<close>\<close>

definition methods :: "string list" where
  "methods = [''GET'', ''HEAD'', ''POST'', ''PUT'', ''PATCH'', ''OPTIONS'']"

text \<open>
  The action of \<^verbatim>\<open>render\<close>, up to its call of \<^verbatim>\<open>handle\<close>: the error it throws, or the
  options it hands over. \<^verbatim>\<open>const clientIP = `${opts.clientIp}`\<close> is always a string.
\<close>

definition render :: "world \<Rightarrow> cli_opts \<Rightarrow> error + handle_options" where
  "render w opts =
     (case o_url opts of
        None \<Rightarrow> Inl (Error ''url option need to be a valid url.'')
      | Some u \<Rightarrow>
         (case parse_url w u of
            None \<Rightarrow> Inl (Error ''url option need to be a valid url.'')
          | Some parsed \<Rightarrow>
             (case o_method opts of
                None \<Rightarrow> Inl (Error ''method must be a string.'')
              | Some m \<Rightarrow>
                 if toUpperCase m \<notin> set methods
                 then Inl (Error (''invalid method: '' @ toUpperCase m))
                 else Inr \<lparr>opt_method = toUpperCase m,
                           url = parsed,
                           clientIP = Some (template_string (o_clientIp opts)),
                           static = o_static opts\<rparr>)))"

section \<open>The request assembler and the life of the process\<close>

text \<open>
  A line of standard input, after \<^verbatim>\<open>JSON.parse\<close>: the array of strings
  \<^verbatim>\<open>[cmd, ...params]\<close>, or a line for which the parse or the destructuring throws. The
  calls on \<^verbatim>\<open>pipe\<close>, the body of the request: \<^verbatim>\<open>pipe.write(Buffer.from(b64, 'base64'))\<close>
  and \<^verbatim>\<open>pipe.end()\<close>.
\<close>

datatype line = Malformed | Cmd "string list"

datatype pipe_op = PipeWrite string | PipeEnd

text \<open>
  The process after \<^verbatim>\<open>handle(options)\<close> has set it up: the variables of the closure
  (\<^verbatim>\<open>headers\<close>, \<^verbatim>\<open>bodyStart\<close>, \<^verbatim>\<open>abort.signal.aborted\<close>, \<^verbatim>\<open>waits\<close>), the calls made on
  \<^verbatim>\<open>pipe\<close> and of \<^verbatim>\<open>serve\<close>, the error that left the line listener uncaught, the
  promises that have settled (with the reason of a rejection), what was printed on standard
  error and standard output, and where the promise chain of \<^verbatim>\<open>start-body\<close> stands:
  not yet at its \<^verbatim>\<open>finally\<close>, waiting in \<^verbatim>\<open>Promise.allSettled(waits)\<close> for the promises
  that were in \<^verbatim>\<open>waits\<close> when it was called, or past \<^verbatim>\<open>process.exit(code)\<close>. A promise is
  named by a number.
\<close>

datatype phase = Handling | Draining "nat list" | Exited nat

record process =
  headers :: headers
  bodyStart :: bool
  aborted :: bool
  pipe :: "pipe_op list"
  served :: "request list"
  uncaught :: "error option"
  waits :: "nat list"
  settled :: "(nat \<times> error option) list"
  stderr :: "error list"
  stdout :: "out_cmd list"
  phase :: phase

definition handle :: process where
  "handle =
     \<lparr>headers = [], bodyStart = False, aborted = False, pipe = [], served = [],
      uncaught = None, waits = [], settled = [], stderr = [], stdout = [],
      phase = Handling\<rparr>"

text \<open>\<^verbatim>\<open>params[i]\<close> as a header name or value: a missing one reads \<^verbatim>\<open>undefined\<close>.\<close>

definition param :: "string list \<Rightarrow> nat \<Rightarrow> string" where
  "param params i = (if i < length params then params ! i else ''undefined'')"

text \<open>
  The listener \<^verbatim>\<open>readline.on('line', ...)\<close>. The request is built from the options and
  the headers collected so far, and \<^verbatim>\<open>serve(req, options)\<close> is called with it.
\<close>

definition on_line :: "world \<Rightarrow> handle_options \<Rightarrow> line \<Rightarrow> process \<Rightarrow> process" where
  "on_line w options l p =
     (case l of
        Malformed \<Rightarrow> p\<lparr>uncaught := Some SyntaxError\<rparr>
      | Cmd arr \<Rightarrow>
         (let cmd = take 1 arr; params = drop 1 arr in
          if \<not> bodyStart p then
            (if cmd = [''header''] then
               (if valid_header w (param params 0) (param params 1)
                then p\<lparr>headers := headers_append (headers p) (param params 0) (param params 1)\<rparr>
                else p\<lparr>uncaught := Some (TypeError ''Invalid header'')\<rparr>)
             else if cmd = [''start-body''] then
               p\<lparr>bodyStart := True,
                 served := served p @ [\<lparr>req_method = opt_method options, req_url = url options,
                                         req_headers = headers p\<rparr>]\<rparr>
             else p)
          else if \<not> aborted p then
            (if cmd = [''data''] then
               (case params of
                  [] \<Rightarrow> p\<lparr>uncaught := Some (TypeError ''The first argument must be a string'')\<rparr>
                | b64 # rest \<Rightarrow> p\<lparr>pipe := pipe p @ [PipeWrite b64]\<rparr>)
             else if cmd = [''end-body''] then p\<lparr>pipe := pipe p @ [PipeEnd]\<rparr>
             else if cmd = [''abort''] then p\<lparr>pipe := pipe p @ [PipeEnd], aborted := True\<rparr>
             else p)
          else p))"

text \<open>
  What happens to the process, one event at a time: a line arrives; the framework calls
  \<^verbatim>\<open>waitUntil(promise)\<close>; a promise settles; the chain
  \<^verbatim>\<open>serve(...).then(writeResponse).catch(console.error)\<close> has settled and its
  \<^verbatim>\<open>finally\<close> callback starts; \<^verbatim>\<open>Promise.allSettled(waits)\<close> resolves and
  \<^verbatim>\<open>process.exit(0)\<close> runs.
\<close>

datatype event =
    Line line
  | WaitUntil nat
  | Settle nat "error option"
  | ChainSettles
  | AllSettled

definition is_settled :: "process \<Rightarrow> nat \<Rightarrow> bool" where
  "is_settled p k = (k \<in> set (map fst (settled p)))"

text \<open>The reasons with which a promise has been rejected.\<close>

definition rejections :: "process \<Rightarrow> nat \<Rightarrow> error list" where
  "rejections p k =
     concat (map (\<lambda>s. case snd s of None \<Rightarrow> [] | Some err \<Rightarrow> [err])
               (filter (\<lambda>s. fst s = k) (settled p)))"

text \<open>
  \<^verbatim>\<open>serve(req, options).then((res) => writeResponse(res, req.method === 'HEAD'))
  .catch((err) => { console.error(err) }).finally(async () => { await
  Promise.allSettled(waits); process.exit(0) })\<close>, up to the call of
  \<^verbatim>\<open>Promise.allSettled\<close>, which takes the promises that are in \<^verbatim>\<open>waits\<close> at that moment.
\<close>

definition chain :: "world \<Rightarrow> framework \<Rightarrow> handle_options \<Rightarrow> request \<Rightarrow> process \<Rightarrow> process" where
  "chain w server options req p =
     (case serve w server req options of
        Inl err \<Rightarrow> p\<lparr>stderr := stderr p @ [err], phase := Draining (waits p)\<rparr>
      | Inr res \<Rightarrow>
         (case writeResponse w res (req_method req = ''HEAD'') of
            (written, None) \<Rightarrow>
              p\<lparr>stdout := stdout p @ written, phase := Draining (waits p)\<rparr>
          | (written, Some err) \<Rightarrow>
              p\<lparr>stdout := stdout p @ written, stderr := stderr p @ [err],
                phase := Draining (waits p)\<rparr>))"

text \<open>
  An exception that leaves the line listener is caught by nobody: the runtime prints it and
  ends the process with exit code 1.
\<close>

definition uncaught_exit :: "process \<Rightarrow> process" where
  "uncaught_exit p = (if uncaught p = None then p else p\<lparr>phase := Exited 1\<rparr>)"

text \<open>The process runs until it has exited.\<close>

definition running :: "process \<Rightarrow> bool" where
  "running p = (uncaught p = None \<and> (case phase p of Exited c \<Rightarrow> False | _ \<Rightarrow> True))"

text \<open>
  One event; \<open>None\<close> when it cannot happen in this state. A line is handed to the
  listener, and the process ends when the listener throws. \<^verbatim>\<open>waitUntil(promise)\<close> adds
  \<^verbatim>\<open>promise.catch(console.error)\<close> to \<^verbatim>\<open>waits\<close>, so a rejection is printed once for every
  time the promise was registered, also when it was rejected before. A promise settles
  once. The chain settles once, after \<^verbatim>\<open>serve\<close> was called. The exit needs every promise
  that \<^verbatim>\<open>Promise.allSettled\<close> took to be settled.
\<close>

definition step ::
  "world \<Rightarrow> framework \<Rightarrow> handle_options \<Rightarrow> event \<Rightarrow> process \<Rightarrow> process option" where
  "step w server options ev p =
     (if \<not> running p then None
      else
       (case ev of
          Line l \<Rightarrow> Some (uncaught_exit (on_line w options l p))
        | WaitUntil k \<Rightarrow>
            Some (p\<lparr>waits := waits p @ [k], stderr := stderr p @ rejections p k\<rparr>)
        | Settle k r \<Rightarrow>
            if is_settled p k then None
            else Some (p\<lparr>settled := settled p @ [(k, r)],
                          stderr := stderr p @
                            (case r of
                               None \<Rightarrow> []
                             | Some err \<Rightarrow> replicate (count_list (waits p) k) err)\<rparr>)
        | ChainSettles \<Rightarrow>
            (case (phase p, served p) of
               (Handling, req # rest) \<Rightarrow> Some (chain w server options req p)
             | _ \<Rightarrow> None)
        | AllSettled \<Rightarrow>
            (case phase p of
               Draining snapshot \<Rightarrow>
                 if list_all (is_settled p) snapshot then Some (p\<lparr>phase := Exited 0\<rparr>) else None
             | _ \<Rightarrow> None)))"

fun run ::
  "world \<Rightarrow> framework \<Rightarrow> handle_options \<Rightarrow> event list \<Rightarrow> process \<Rightarrow> process option" where
  "run w server options [] p = Some p"
| "run w server options (ev # evs) p =
     (case step w server options ev p of
        None \<Rightarrow> None
      | Some p' \<Rightarrow> run w server options evs p')"

text \<open>
  The program from its command line on, \<^verbatim>\<open>cli.parse()\<close>. When the action of \<^verbatim>\<open>render\<close>
  throws, \<^verbatim>\<open>handle\<close> is not called: the exception is uncaught, the process ends with
  exit code 1 and no event happens to it. Otherwise \<^verbatim>\<open>handle(options)\<close> sets the process
  up and the events happen to it.
\<close>

definition cli_parse ::
  "world \<Rightarrow> framework \<Rightarrow> cli_opts \<Rightarrow> event list \<Rightarrow> process option" where
  "cli_parse w server opts evs =
     (case render w opts of
        Inl err \<Rightarrow>
          if evs = [] then Some (handle\<lparr>uncaught := Some err, phase := Exited 1\<rparr>) else None
      | Inr options \<Rightarrow> run w server options evs handle)"

section \<open>A concrete world\<close>

text \<open>
  The inputs at which the program is evaluated below. \<^verbatim>\<open>path.normalize\<close> on a POSIX
  system: empty segments and \<^verbatim>\<open>.\<close> are dropped, \<^verbatim>\<open>..\<close> removes the segment before it
  (above the root of an absolute path it is dropped, above a relative path it is kept), and
  a trailing separator is preserved.
\<close>

fun normalize_segments :: "bool \<Rightarrow> string list \<Rightarrow> string list \<Rightarrow> string list" where
  "normalize_segments allowAboveRoot res [] = res"
| "normalize_segments allowAboveRoot res (s # ss) =
     (if s = [] \<or> s = ''.'' then normalize_segments allowAboveRoot res ss
      else if s = ''..'' then
        (if res \<noteq> [] \<and> last res \<noteq> ''..'' then normalize_segments allowAboveRoot (butlast res) ss
         else if allowAboveRoot then normalize_segments allowAboveRoot (res @ [''..'']) ss
         else normalize_segments allowAboveRoot res ss)
      else normalize_segments allowAboveRoot (res @ [s]) ss)"

fun join_path :: "string list \<Rightarrow> string" where
  "join_path [] = []"
| "join_path [s] = s"
| "join_path (s # ss) = s @ ''/'' @ join_path ss"

definition posix_normalize :: "string \<Rightarrow> string" where
  "posix_normalize path =
     (if path = [] then ''.''
      else
       (let isAbsolute = startsWith path ''/'';
            trailingSeparator = endsWith path ''/'';
            p = join_path (normalize_segments (\<not> isAbsolute) [] (split_on CHR ''/'' path))
        in
        if p = [] then (if isAbsolute then ''/'' else if trailingSeparator then ''./'' else ''.'')
        else (if isAbsolute then ''/'' else []) @ p @ (if trailingSeparator then ''/'' else [])))"

text \<open>
  A disk with the given directories and regular files, every file last modified one second
  into 1970. The file system resolves a path as \<^verbatim>\<open>path.normalize\<close> does, and a path with a
  trailing separator names a directory only. The program lives in \<^verbatim>\<open>/srv\<close>; the URLs
  that parse are those of \<^verbatim>\<open>http://localhost\<close> without a query, a reference that starts
  with a slash resolves against a base to the base's origin followed by the reference, a
  header needs a name, a body is read in one chunk and no write fails.
\<close>

definition disk :: "string list \<Rightarrow> (string \<times> byte list) list \<Rightarrow> world" where
  "disk dirs files =
     \<lparr>existsSync = (\<lambda>p. if posix_normalize p \<noteq> ''/'' \<and> endsWith (posix_normalize p) ''/''
                        then butlast (posix_normalize p) \<in> set dirs
                        else posix_normalize p \<in> set dirs
                             \<or> posix_normalize p \<in> set (map fst files)),
      statSync = (\<lambda>p. case map_of files (posix_normalize p) of
                         Some bs \<Rightarrow> \<lparr>isFile = True, size_bytes = length bs, mtimeMs = ''1000'',
                                      mtime_utc = ''Thu, 01 Jan 1970 00:00:01 GMT''\<rparr>
                       | None \<Rightarrow> \<lparr>isFile = False, size_bytes = 4096, mtimeMs = ''1000'',
                                   mtime_utc = ''Thu, 01 Jan 1970 00:00:01 GMT''\<rparr>),
      file_bytes = (\<lambda>p. case map_of files (posix_normalize p) of Some bs \<Rightarrow> bs | None \<Rightarrow> []),
      file_type = (\<lambda>p. ''text/plain;charset=utf-8''),
      IGNORE_FILES = None,
      glob_match = (\<lambda>pat candidate. False),
      appDir = ''_app'',
      base_path = ''/srv'',
      percent_decode = (\<lambda>s. None),
      normalize = posix_normalize,
      url_href = (\<lambda>ref base. origin base @ ref),
      parse_url = (\<lambda>s. if startsWith s ''http://localhost/'' \<and> CHR ''?'' \<notin> set s
                         then Some \<lparr>origin = ''http://localhost'', pathname = drop 16 s, search = []\<rparr>
                         else None),
      valid_header = (\<lambda>k v. k \<noteq> []),
      body_chunks = (\<lambda>b. [b]),
      stdout_error = (\<lambda>n. None)\<rparr>"

text \<open>A file of the ten bytes \<^verbatim>\<open>0123456789\<close>, and a file of three bytes.\<close>

definition ten_bytes :: "byte list" where
  "ten_bytes = [48, 49, 50, 51, 52, 53, 54, 55, 56, 57]"

definition three_bytes :: "byte list" where
  "three_bytes = [27, 3, 0]"

text \<open>A GET request for a path and a query, with the options of the same URL.\<close>

definition get_request :: "string \<Rightarrow> string \<Rightarrow> headers \<Rightarrow> request" where
  "get_request path query hs =
     \<lparr>req_method = ''GET'',
      req_url = \<lparr>origin = ''http://localhost'', pathname = path, search = query\<rparr>,
      req_headers = hs\<rparr>"

definition get_options :: "string \<Rightarrow> string \<Rightarrow> handle_options" where
  "get_options path query =
     \<lparr>opt_method = ''GET'',
      url = \<lparr>origin = ''http://localhost'', pathname = path, search = query\<rparr>,
      clientIP = None, static = True\<rparr>"

text \<open>A framework whose handler throws, and one that finds no route.\<close>

definition throwing :: framework where
  "throwing = \<lparr>init_error = None, respond = (\<lambda>req addr. Inl (Error ''boom''))\<rparr>"

definition routeless :: framework where
  "routeless = \<lparr>init_error = None, respond = (\<lambda>req addr. Inr None)\<rparr>"

section \<open>Notions of the properties\<close>

text \<open>
  The requests handed to \<^verbatim>\<open>serve\<close> so far: none before \<^verbatim>\<open>start-body\<close>, and afterwards
  the one request, whose headers are the headers collected.
\<close>

definition request_of :: "handle_options \<Rightarrow> process \<Rightarrow> request list" where
  "request_of options p =
     (if bodyStart p
      then [\<lparr>req_method = opt_method options, req_url = url options, req_headers = headers p\<rparr>]
      else [])"

text \<open>
  The arguments the specification asks of the command line: a URL that is given and
  parses, and a method that is given and is, without regard to case, one of GET, HEAD,
  POST, PUT, PATCH and OPTIONS.
\<close>

definition valid_arguments :: "world \<Rightarrow> cli_opts \<Rightarrow> bool" where
  "valid_arguments w opts =
     ((case o_url opts of None \<Rightarrow> False | Some u \<Rightarrow> parse_url w u \<noteq> None)
      \<and> (case o_method opts of
           None \<Rightarrow> False
         | Some m \<Rightarrow>
             toUpperCase m \<in> set [''GET'', ''HEAD'', ''POST'', ''PUT'', ''PATCH'', ''OPTIONS'']))"

text \<open>
  The exit code of a process that has exited is 1 when an exception was uncaught and 0
  otherwise, and a process with an uncaught exception has exited.
\<close>

definition exit_code_ok :: "process \<Rightarrow> bool" where
  "exit_code_ok p =
     (case phase p of
        Exited c \<Rightarrow> c = (if uncaught p = None then 0 else 1)
      | _ \<Rightarrow> uncaught p = None)"

text \<open>
  Once \<^verbatim>\<open>Promise.allSettled\<close> has taken the promises of a snapshot, the process waits for
  them, or it has exited with code 0 and they have all settled, or an uncaught exception
  has ended it with code 1.
\<close>

definition drained :: "nat list \<Rightarrow> process \<Rightarrow> bool" where
  "drained snapshot p =
     (phase p = Draining snapshot
      \<or> (phase p = Exited 0 \<and> list_all (is_settled p) snapshot)
      \<or> (phase p = Exited 1 \<and> uncaught p \<noteq> None))"

text \<open>Every reason with which a registered promise was rejected is on standard error.\<close>

definition rejections_logged :: "process \<Rightarrow> bool" where
  "rejections_logged p =
     list_all (\<lambda>k. list_all (\<lambda>err. err \<in> set (stderr p)) (rejections p k)) (waits p)"

text \<open>
  The promises of a list that have not settled, each once, and the events in which they
  settle one after the other, each with the outcome given for it.
\<close>

definition unsettled :: "process \<Rightarrow> nat list \<Rightarrow> nat list" where
  "unsettled p ks = remdups (filter (\<lambda>k. \<not> is_settled p k) ks)"

definition settle_all :: "(nat \<Rightarrow> error option) \<Rightarrow> nat list \<Rightarrow> event list" where
  "settle_all outcome ks = map (\<lambda>k. Settle k (outcome k)) ks"

chapter \<open>Properties\<close>

section \<open>The line reader\<close>

subsection \<open>The reference splits the input exactly\<close>

lemma split_lines_rebuild:
  "concat (map (\<lambda>l. l @ [LF]) (fst (split_lines cur xs))) @ snd (split_lines cur xs) = cur @ xs"
  by (induction xs arbitrary: cur) (simp_all add: case_prod_beta)

lemma split_lines_rest_no_lf:
  "LF \<notin> set cur \<Longrightarrow> LF \<notin> set (snd (split_lines cur xs))"
  by (induction xs arbitrary: cur) (simp_all add: case_prod_beta)

lemma split_lines_lines_no_lf:
  "LF \<notin> set cur \<Longrightarrow> list_all (\<lambda>l. LF \<notin> set l) (fst (split_lines cur xs))"
  by (induction xs arbitrary: cur) (simp_all add: case_prod_beta)

lemma split_lines_append:
  "split_lines cur (xs @ ys) =
     (case split_lines cur xs of (ls, r) \<Rightarrow>
        (case split_lines r ys of (ls', r') \<Rightarrow> (ls @ ls', r')))"
  by (induction xs arbitrary: cur) (auto split: prod.splits)

lemma split_lines_carry:
  "LF \<notin> set r \<Longrightarrow> split_lines cur (r @ xs) = split_lines (cur @ r) xs"
  by (induction r arbitrary: cur) auto

subsection \<open>The loop against the reference\<close>

lemma split_lines_no_lf:
  "indexOf b LF = None \<Longrightarrow> split_lines cur b = ([], cur @ b)"
  by (induction b arbitrary: cur) (auto split: if_splits)

lemma split_lines_at_lf:
  "indexOf b LF = Some i \<Longrightarrow>
   split_lines cur b =
     (case split_lines [] (drop (i + 1) b) of (ls, r) \<Rightarrow> ((cur @ take i b) # ls, r))"
  by (induction b arbitrary: cur i) (auto split: if_splits prod.splits)

lemma while_lf_split_lines:
  "while_lf utf8 emitted buff =
     (emitted @ map utf8 (filter (\<lambda>l. l \<noteq> []) (fst (split_lines [] buff))),
      snd (split_lines [] buff))"
proof (induction utf8 emitted buff rule: while_lf.induct)
  case (1 utf8 emitted buff)
  show ?case
  proof (cases "indexOf buff LF")
    case None
    then show ?thesis
      by (subst while_lf.simps) (simp add: split_lines_no_lf)
  next
    case (Some lf)
    from "1.IH" [OF Some] Some show ?thesis
      by (subst while_lf.simps) (simp add: split_lines_at_lf case_prod_beta)
  qed
qed

lemma write_chunk_split_lines:
  "write_chunk utf8 buff chunk =
     (map utf8 (filter (\<lambda>l. l \<noteq> []) (fst (split_lines [] (buff @ chunk)))),
      snd (split_lines [] (buff @ chunk)))"
  by (simp add: write_chunk_def while_lf_split_lines)

lemma feed_split_lines:
  "LF \<notin> set buff \<Longrightarrow> feed utf8 buff chunks =
     (map utf8 (filter (\<lambda>l. l \<noteq> []) (fst (split_lines [] (buff @ concat chunks)))),
      snd (split_lines [] (buff @ concat chunks)))"
proof (induction chunks arbitrary: buff)
  case Nil
  then show ?case
    using split_lines_carry [of buff "[]" "[]"] by simp
next
  case (Cons c cs)
  obtain ls r where w: "split_lines [] (buff @ c) = (ls, r)"
    by (cases "split_lines [] (buff @ c)")
  have r: "LF \<notin> set r"
    using split_lines_rest_no_lf [of "[]" "buff @ c"] w by simp
  have "split_lines [] (buff @ concat (c # cs)) =
        (case split_lines r (concat cs) of (ls', r') \<Rightarrow> (ls @ ls', r'))"
    using split_lines_append [of "[]" "buff @ c" "concat cs"] w by simp
  moreover have "split_lines [] (r @ concat cs) = split_lines r (concat cs)"
    using split_lines_carry [OF r, of "[]" "concat cs"] by simp
  ultimately show ?case
    using Cons.IH [OF r] w
    by (simp add: write_chunk_split_lines split: prod.splits)
qed

text \<open>
  Lines are emitted as soon as they are complete: what the reader has emitted after some
  chunks is not changed by the chunks that follow, and after every call the buffer holds no
  newline.
\<close>

lemma feed_append:
  "feed utf8 buff (cs @ ds) =
     (case feed utf8 buff cs of (ls, b) \<Rightarrow>
        (case feed utf8 b ds of (ls', b') \<Rightarrow> (ls @ ls', b')))"
  by (induction cs arbitrary: buff) (auto split: prod.splits)

lemma write_chunk_buffer_no_lf: "LF \<notin> set (snd (write_chunk utf8 buff chunk))"
  by (simp add: write_chunk_split_lines split_lines_rest_no_lf)

text \<open>
  Claim C7, as the code has it. For every sequence of chunks fed to a fresh reader, the
  lines emitted are, in order, the decoded non-empty complete lines of the concatenated
  input (\<^verbatim>\<open>if (buff.length)\<close> skips a line with no bytes), the buffer left is the
  unterminated rest of the input, so no byte of a trailing line is dropped and none of it is
  emitted: the complete lines, each with its newline, followed by the buffer are the input,
  and neither a line nor the buffer holds a newline.
\<close>

theorem readline_emits_nonempty_complete_lines:
  "feed utf8 [] chunks =
     (map utf8 (filter (\<lambda>l. l \<noteq> []) (fst (split_lines [] (concat chunks)))),
      snd (split_lines [] (concat chunks)))
   \<and> concat (map (\<lambda>l. l @ [LF]) (fst (split_lines [] (concat chunks))))
       @ snd (feed utf8 [] chunks) = concat chunks
   \<and> list_all (\<lambda>l. LF \<notin> set l) (fst (split_lines [] (concat chunks)))
   \<and> LF \<notin> set (snd (feed utf8 [] chunks))"
proof -
  have f: "feed utf8 [] chunks =
     (map utf8 (filter (\<lambda>l. l \<noteq> []) (fst (split_lines [] (concat chunks)))),
      snd (split_lines [] (concat chunks)))"
    using feed_split_lines [of "[]" utf8 chunks] by simp
  have "concat (map (\<lambda>l. l @ [LF]) (fst (split_lines [] (concat chunks))))
       @ snd (split_lines [] (concat chunks)) = concat chunks"
    using split_lines_rebuild [of "[]" "concat chunks"] by simp
  moreover have "list_all (\<lambda>l. LF \<notin> set l) (fst (split_lines [] (concat chunks)))"
    by (rule split_lines_lines_no_lf) simp
  moreover have "LF \<notin> set (snd (split_lines [] (concat chunks)))"
    by (rule split_lines_rest_no_lf) simp
  ultimately show ?thesis
    using f by simp
qed

theorem readline_emits_nonempty_complete_lines_witness:
  "feed (\<lambda>l. l) [] [[97, 10, 10, 98], [10, 99]] = ([[97], [98]], [99])"
  using readline_emits_nonempty_complete_lines [of "\<lambda>l. l" "[[97, 10, 10, 98], [10, 99]]"]
  by (simp add: LF_def)

text \<open>
  The claim as the specification words it asks for each complete line. The input
  \<^verbatim>\<open>"a\n\nb\n"\<close> has three complete lines, the second one empty, and the reader emits two.
\<close>

theorem readline_each_complete_line_counterexample:
  "fst (split_lines [] (concat [[97, 10, 10, 98, 10]])) = [[97], [], [98]]
   \<and> fst (feed (\<lambda>l. l) [] [[97, 10, 10, 98, 10]]) = [[97], [98]]
   \<and> fst (feed (\<lambda>l. l) [] [[97, 10, 10, 98, 10]])
       \<noteq> map (\<lambda>l. l) (fst (split_lines [] (concat [[97, 10, 10, 98, 10]])))"
  by (simp add: write_chunk_split_lines LF_def)

text \<open>
  Claim C8. Feeding the chunks of any split of a byte sequence, in order, emits the same
  lines (and leaves the same buffer) as feeding the whole sequence as one chunk.
\<close>

theorem readline_chunk_boundary_independence:
  "feed utf8 [] chunks = feed utf8 [] [concat chunks]"
  by (simp add: feed_split_lines write_chunk_split_lines)

theorem readline_chunk_boundary_independence_witness:
  "feed (\<lambda>l. l) [] [[97, 10, 10], [98], [10, 99]] = ([[97], [98]], [99])
   \<and> feed (\<lambda>l. l) [] [[97, 10, 10, 98, 10, 99]] = ([[97], [98]], [99])"
  using readline_chunk_boundary_independence [of "\<lambda>l. l" "[[97, 10, 10], [98], [10, 99]]"]
  by (simp add: write_chunk_split_lines LF_def)

section \<open>The static file resolver\<close>

text \<open>
  Claim C1, at the specification's own example and next to it. The file
  \<^verbatim>\<open>/srv/client/a.txt\<close> has ten bytes. For \<^verbatim>\<open>range: bytes=0-4\<close> the start parses to zero,
  \<^verbatim>\<open>!rangeStart\<close> holds of zero, and the answer is 416 instead of 206 with the first five
  bytes. For \<^verbatim>\<open>range: bytes=1-4\<close> the end is incremented by \<^verbatim>\<open>parseRange\<close> and again by
  \<^verbatim>\<open>serveStatic\<close>: the answer is 206 with \<^verbatim>\<open>content-range: bytes 1-5/10\<close>, a content
  length of 5 and the five bytes 1 to 5, instead of the four bytes 1 to 4. For
  \<^verbatim>\<open>range: bytes=5-9\<close>, the last five bytes, the answer is 416.
\<close>

theorem serveStatic_range_zero_start_and_end_off_by_one:
  "serveStatic (disk [''/srv/client''] [(''/srv/client/a.txt'', ten_bytes)])
     (get_request ''/a.txt'' [] [(''range'', ''bytes=0-4'')]) (get_options ''/a.txt'' [])
     ''/srv/client'' True =
   Inr (Some \<lparr>status = 416, statusText = [],
     res_headers =
       [(''content-type'', ''text/plain;charset=utf-8''),
        (''last-modified'', ''Thu, 01 Jan 1970 00:00:01 GMT''),
        (''etag'', ''W/10-1000''),
        (''content-range'', ''bytes */10''),
        (''content-length'', ''0'')],
     body = None\<rparr>)
   \<and> serveStatic (disk [''/srv/client''] [(''/srv/client/a.txt'', ten_bytes)])
     (get_request ''/a.txt'' [] [(''range'', ''bytes=1-4'')]) (get_options ''/a.txt'' [])
     ''/srv/client'' True =
   Inr (Some \<lparr>status = 206, statusText = [],
     res_headers =
       [(''content-type'', ''text/plain;charset=utf-8''),
        (''last-modified'', ''Thu, 01 Jan 1970 00:00:01 GMT''),
        (''etag'', ''W/10-1000''),
        (''content-range'', ''bytes 1-5/10''),
        (''content-length'', ''5''),
        (''accept-range'', ''bytes'')],
     body = Some [49, 50, 51, 52, 53]\<rparr>)
   \<and> map_sum id (map_option status)
       (serveStatic (disk [''/srv/client''] [(''/srv/client/a.txt'', ten_bytes)])
          (get_request ''/a.txt'' [] [(''range'', ''bytes=5-9'')]) (get_options ''/a.txt'' [])
          ''/srv/client'' True) = Inr (Some 416)"
  by code_simp




text \<open>
  Claim C4, at a file with a brotli sibling. \<^verbatim>\<open>/srv/client/a.txt\<close> has ten bytes and
  \<^verbatim>\<open>/srv/client/a.txt.br\<close> three. For \<^verbatim>\<open>accept-encoding: br\<close> the three bytes are served
  with \<^verbatim>\<open>content-encoding: br\<close> and \<^verbatim>\<open>content-length: 10\<close>, the length of the original:
  the branch of the gzip sibling sets \<^verbatim>\<open>content-length\<close> to the sibling's size, the branch
  of the brotli sibling does not. With a gzip sibling of three bytes and
  \<^verbatim>\<open>accept-encoding: gzip\<close> the content length is 3.
\<close>

theorem serveStatic_brotli_keeps_original_content_length:
  "serveStatic
     (disk [''/srv/client'']
        [(''/srv/client/a.txt'', ten_bytes), (''/srv/client/a.txt.br'', three_bytes)])
     (get_request ''/a.txt'' [] [(''accept-encoding'', ''br'')]) (get_options ''/a.txt'' [])
     ''/srv/client'' True =
   Inr (Some \<lparr>status = 200, statusText = [],
     res_headers =
       [(''content-type'', ''text/plain;charset=utf-8''),
        (''content-length'', ''10''),
        (''last-modified'', ''Thu, 01 Jan 1970 00:00:01 GMT''),
        (''etag'', ''W/10-1000''),
        (''cache-control'', ''public,max-age=14400''),
        (''content-encoding'', ''br'')],
     body = Some [27, 3, 0]\<rparr>)
   \<and> serveStatic
     (disk [''/srv/client'']
        [(''/srv/client/a.txt'', ten_bytes), (''/srv/client/a.txt.gz'', three_bytes)])
     (get_request ''/a.txt'' [] [(''accept-encoding'', ''gzip'')]) (get_options ''/a.txt'' [])
     ''/srv/client'' True =
   Inr (Some \<lparr>status = 200, statusText = [],
     res_headers =
       [(''content-type'', ''text/plain;charset=utf-8''),
        (''last-modified'', ''Thu, 01 Jan 1970 00:00:01 GMT''),
        (''etag'', ''W/10-1000''),
        (''cache-control'', ''public,max-age=14400''),
        (''content-length'', ''3''),
        (''content-encoding'', ''gzip'')],
     body = Some [27, 3, 0]\<rparr>)"
  by code_simp

text \<open>
  Claim C6, at a request that carries the validator. The file has ten bytes and was
  modified at millisecond 1000, so its validator is \<^verbatim>\<open>W/10-1000\<close>. A request with
  \<^verbatim>\<open>if-none-match: W/10-1000\<close> is answered 200 with the whole file: the header the code
  reads is \<^verbatim>\<open>if-non-match\<close>, and only a request with that header is answered 304.
\<close>

theorem serveStatic_if_none_match_is_not_read:
  "serveStatic (disk [''/srv/client''] [(''/srv/client/a.txt'', ten_bytes)])
     (get_request ''/a.txt'' [] [(''if-none-match'', ''W/10-1000'')]) (get_options ''/a.txt'' [])
     ''/srv/client'' True =
   Inr (Some \<lparr>status = 200, statusText = [],
     res_headers =
       [(''content-type'', ''text/plain;charset=utf-8''),
        (''content-length'', ''10''),
        (''last-modified'', ''Thu, 01 Jan 1970 00:00:01 GMT''),
        (''etag'', ''W/10-1000''),
        (''cache-control'', ''public,max-age=14400'')],
     body = Some [48, 49, 50, 51, 52, 53, 54, 55, 56, 57]\<rparr>)
   \<and> serveStatic (disk [''/srv/client''] [(''/srv/client/a.txt'', ten_bytes)])
     (get_request ''/a.txt'' [] [(''if-non-match'', ''W/10-1000'')]) (get_options ''/a.txt'' [])
     ''/srv/client'' True =
   Inr (Some \<lparr>status = 304, statusText = [], res_headers = [], body = None\<rparr>)"
  by code_simp

section \<open>The dispatcher and the render command\<close>

text \<open>
  Claim C5, at a command line without \<^verbatim>\<open>--client-ip\<close>. The action of \<^verbatim>\<open>render\<close> turns the
  missing option into the string \<^verbatim>\<open>undefined\<close>, which is truthy, and the client address
  resolver returns it: the error \<^verbatim>\<open>Unable to determine client IP.\<close> is not thrown. With
  \<^verbatim>\<open>--client-ip 10.0.0.7\<close> the resolver returns that address.
\<close>

theorem render_without_client_ip_resolves_undefined:
  "render (disk [] [])
     \<lparr>o_url = Some ''http://localhost/a'', o_method = Some ''get'', o_clientIp = None,
      o_static = True\<rparr> =
   Inr \<lparr>opt_method = ''GET'',
        url = \<lparr>origin = ''http://localhost'', pathname = ''/a'', search = []\<rparr>,
        clientIP = Some ''undefined'', static = True\<rparr>
   \<and> getClientAddress
       \<lparr>opt_method = ''GET'',
        url = \<lparr>origin = ''http://localhost'', pathname = ''/a'', search = []\<rparr>,
        clientIP = Some ''undefined'', static = True\<rparr> () = Inr ''undefined''
   \<and> map_sum id (\<lambda>options. getClientAddress options ())
       (render (disk [] [])
          \<lparr>o_url = Some ''http://localhost/a'', o_method = Some ''get'',
           o_clientIp = Some ''10.0.0.7'', o_static = True\<rparr>) = Inr (Inr ''10.0.0.7'')"
  by code_simp

section \<open>The request assembler\<close>

text \<open>What a line leaves alone, in every state and once the body has started.\<close>

lemma on_line_frame:
  "waits (on_line w options l p) = waits p
   \<and> settled (on_line w options l p) = settled p
   \<and> stderr (on_line w options l p) = stderr p
   \<and> stdout (on_line w options l p) = stdout p
   \<and> phase (on_line w options l p) = phase p"
  by (cases l) (simp_all add: on_line_def Let_def split: list.splits)

lemma on_line_after_start:
  "bodyStart p \<Longrightarrow>
     bodyStart (on_line w options l p) \<and> headers (on_line w options l p) = headers p
     \<and> served (on_line w options l p) = served p"
  by (cases l) (simp_all add: on_line_def Let_def split: list.splits)

lemma on_line_ignores_header_and_start_body:
  "bodyStart p \<Longrightarrow>
     on_line w options (Cmd (''header'' # params)) p = p
     \<and> on_line w options (Cmd (''start-body'' # params)) p = p"
  by (simp add: on_line_def Let_def)

lemma on_line_served:
  "served p = request_of options p \<Longrightarrow>
   served (on_line w options l p) = request_of options (on_line w options l p)"
  by (cases l) (simp_all add: on_line_def request_of_def Let_def split: list.splits)

lemma uncaught_exit_frame:
  "bodyStart (uncaught_exit p) = bodyStart p
   \<and> headers (uncaught_exit p) = headers p
   \<and> served (uncaught_exit p) = served p
   \<and> waits (uncaught_exit p) = waits p
   \<and> settled (uncaught_exit p) = settled p
   \<and> stderr (uncaught_exit p) = stderr p
   \<and> stdout (uncaught_exit p) = stdout p
   \<and> uncaught (uncaught_exit p) = uncaught p"
  by (simp add: uncaught_exit_def)

lemma chain_frame:
  "bodyStart (chain w server options req p) = bodyStart p
   \<and> headers (chain w server options req p) = headers p
   \<and> served (chain w server options req p) = served p
   \<and> waits (chain w server options req p) = waits p
   \<and> settled (chain w server options req p) = settled p
   \<and> uncaught (chain w server options req p) = uncaught p
   \<and> phase (chain w server options req p) = Draining (waits p)"
  by (simp add: chain_def split: sum.splits prod.splits option.splits)

lemma step_served:
  "step w server options ev p = Some q \<Longrightarrow> served p = request_of options p \<Longrightarrow>
   served q = request_of options q"
  by (cases ev)
    (auto simp: step_def on_line_served request_of_def chain_frame uncaught_exit_frame
          split: if_splits phase.splits list.splits)

lemma step_after_start:
  "step w server options ev p = Some q \<Longrightarrow> bodyStart p \<Longrightarrow>
   bodyStart q \<and> headers q = headers p \<and> served q = served p"
  by (cases ev)
    (auto simp: step_def on_line_after_start chain_frame uncaught_exit_frame
          split: if_splits phase.splits list.splits)

lemma run_served:
  "run w server options evs p = Some q \<Longrightarrow> served p = request_of options p \<Longrightarrow>
   served q = request_of options q"
  by (induction evs arbitrary: p) (auto split: option.splits dest: step_served)

lemma run_after_start:
  "run w server options evs p = Some q \<Longrightarrow> bodyStart p \<Longrightarrow>
   bodyStart q \<and> headers q = headers p \<and> served q = served p"
proof (induction evs arbitrary: p)
  case Nil
  then show ?case by simp
next
  case (Cons ev evs)
  then obtain p' where s: "step w server options ev p = Some p'"
    and r: "run w server options evs p' = Some q"
    by (auto split: option.splits)
  from step_after_start [OF s Cons.prems(2)] Cons.IH [OF r] show ?case
    by simp
qed

lemma handle_served: "served handle = request_of options handle"
  by (simp add: handle_def request_of_def)

text \<open>
  Claim C10. Take any events up to a state \<open>p\<close> of the process and any events after it, up
  to \<open>q\<close>. \<^verbatim>\<open>serve\<close> has been called at most once. If \<^verbatim>\<open>start-body\<close> has been processed
  in \<open>p\<close>, then the one request was built with the headers of \<open>p\<close>, the headers and the
  calls of \<^verbatim>\<open>serve\<close> are the same in \<open>q\<close>, and a \<^verbatim>\<open>header\<close> or \<^verbatim>\<open>start-body\<close> line,
  whatever its parameters, leaves the process as it is.
\<close>

theorem request_fixed_after_start_body:
  assumes "run w server options evs handle = Some p"
    and "run w server options evs' p = Some q"
  shows "length (served q) \<le> 1
     \<and> (bodyStart p \<longrightarrow>
          headers q = headers p \<and> served q = served p
          \<and> served p = [\<lparr>req_method = opt_method options, req_url = url options,
                           req_headers = headers p\<rparr>]
          \<and> on_line w options (Cmd (''header'' # params)) p = p
          \<and> on_line w options (Cmd (''start-body'' # params)) p = p)"
proof -
  have p: "served p = request_of options p"
    using run_served [OF assms(1) handle_served] .
  have q: "served q = request_of options q"
    using run_served [OF assms(2) p] .
  show ?thesis
    using p q run_after_start [OF assms(2)]
      on_line_ignores_header_and_start_body [of p w options params]
    by (auto simp: request_of_def)
qed

theorem request_fixed_after_start_body_witness:
  "map_option (\<lambda>p. (bodyStart p, headers p, map req_headers (served p)))
     (run (disk [] []) routeless (get_options ''/x'' [])
        [Line (Cmd [''header'', ''Accept'', ''text/html'']), Line (Cmd [''start-body''])] handle) =
   Some (True, [(''accept'', ''text/html'')], [[(''accept'', ''text/html'')]])
   \<and> map_option (\<lambda>q. (headers q, map req_headers (served q), pipe q))
     (run (disk [] []) routeless (get_options ''/x'' [])
        [Line (Cmd [''header'', ''Accept'', ''text/html'']), Line (Cmd [''start-body'']),
         Line (Cmd [''header'', ''Cookie'', ''a=b'']), Line (Cmd [''start-body'']),
         Line (Cmd [''data'', ''aGk='']), Line (Cmd [''end-body''])] handle) =
   Some ([(''accept'', ''text/html'')], [[(''accept'', ''text/html'')]],
         [PipeWrite ''aGk='', PipeEnd])"
proof -
  let ?w = "disk [] []"
  let ?options = "get_options ''/x'' []"
  let ?req = "\<lparr>req_method = ''GET'',
               req_url = \<lparr>origin = ''http://localhost'', pathname = ''/x'', search = []\<rparr>,
               req_headers = [(''accept'', ''text/html'')]\<rparr>"
  let ?p = "\<lparr>headers = [(''accept'', ''text/html'')], bodyStart = True, aborted = False,
             pipe = [], served = [?req], uncaught = None, waits = [], settled = [],
             stderr = [], stdout = [], phase = Handling\<rparr>"
  let ?q = "\<lparr>headers = [(''accept'', ''text/html'')], bodyStart = True, aborted = False,
             pipe = [PipeWrite ''aGk='', PipeEnd], served = [?req], uncaught = None,
             waits = [], settled = [], stderr = [], stdout = [], phase = Handling\<rparr>"
  have a: "run ?w routeless ?options
        [Line (Cmd [''header'', ''Accept'', ''text/html'']), Line (Cmd [''start-body''])] handle =
      Some ?p"
    by code_simp
  have b: "run ?w routeless ?options
        [Line (Cmd [''header'', ''Cookie'', ''a=b'']), Line (Cmd [''start-body'']),
         Line (Cmd [''data'', ''aGk='']), Line (Cmd [''end-body''])] ?p = Some ?q"
    by code_simp
  have c: "run ?w routeless ?options
        [Line (Cmd [''header'', ''Accept'', ''text/html'']), Line (Cmd [''start-body'']),
         Line (Cmd [''header'', ''Cookie'', ''a=b'']), Line (Cmd [''start-body'']),
         Line (Cmd [''data'', ''aGk='']), Line (Cmd [''end-body''])] handle = Some ?q"
    by code_simp
  show ?thesis
    using request_fixed_after_start_body [OF a b, of "[''Cookie'', ''a=b'']"] a c
    by simp
qed

section \<open>The exit of the process\<close>

lemma step_exit_code_ok:
  "step w server options ev p = Some q \<Longrightarrow> exit_code_ok q"
  by (cases ev)
    (auto simp: step_def running_def exit_code_ok_def on_line_frame chain_frame
            uncaught_exit_def
          split: if_splits phase.splits list.splits)

lemma run_exit_code_ok:
  "run w server options evs p = Some q \<Longrightarrow> exit_code_ok p \<Longrightarrow> exit_code_ok q"
  by (induction evs arbitrary: p) (auto split: option.splits dest: step_exit_code_ok)

lemma handle_exit_code_ok: "exit_code_ok handle"
  by (simp add: exit_code_ok_def handle_def)

lemma cli_parse_exit_code_ok:
  assumes "cli_parse w server opts evs = Some p"
  shows "exit_code_ok p"
proof (cases "render w opts")
  case (Inl err)
  with assms show ?thesis
    by (auto simp: cli_parse_def exit_code_ok_def handle_def split: if_splits)
next
  case (Inr options)
  with assms have "run w server options evs handle = Some p"
    by (simp add: cli_parse_def)
  from run_exit_code_ok [OF this handle_exit_code_ok] show ?thesis .
qed

lemma run_append:
  "run w server options (xs @ ys) p =
     (case run w server options xs p of
        None \<Rightarrow> None
      | Some p' \<Rightarrow> run w server options ys p')"
  by (induction xs arbitrary: p) (auto split: option.splits)

text \<open>The promises that have not settled settle one after the other, whatever the outcomes.\<close>

lemma step_settle:
  "running p \<Longrightarrow> \<not> is_settled p k \<Longrightarrow>
   step w server options (Settle k r) p =
     Some (p\<lparr>settled := settled p @ [(k, r)],
             stderr := stderr p @
               (case r of None \<Rightarrow> [] | Some err \<Rightarrow> replicate (count_list (waits p) k) err)\<rparr>)"
  by (simp add: step_def)

lemma run_settle_all:
  "distinct ks \<Longrightarrow> list_all (\<lambda>k. \<not> is_settled p k) ks \<Longrightarrow> running p \<Longrightarrow>
   \<exists>q. run w server options (settle_all outcome ks) p = Some q
       \<and> phase q = phase p \<and> uncaught q = None \<and> stdout q = stdout p \<and> waits q = waits p
       \<and> served q = served p
       \<and> set (stderr p) \<subseteq> set (stderr q)
       \<and> (\<forall>k. is_settled q k = (is_settled p k \<or> k \<in> set ks))"
proof (induction ks arbitrary: p)
  case Nil
  then show ?case by (simp add: settle_all_def running_def)
next
  case (Cons k ks)
  let ?p = "p\<lparr>settled := settled p @ [(k, outcome k)],
             stderr := stderr p @
               (case outcome k of None \<Rightarrow> []
                | Some err \<Rightarrow> replicate (count_list (waits p) k) err)\<rparr>"
  have s: "step w server options (Settle k (outcome k)) p = Some ?p"
    using Cons.prems by (simp add: step_settle)
  have d: "distinct ks" and r: "running ?p"
    using Cons.prems by (simp_all add: running_def)
  have n: "list_all (\<lambda>j. \<not> is_settled ?p j) ks"
    using Cons.prems by (auto simp: list_all_iff is_settled_def)
  from Cons.IH [OF d n r] obtain q where
    q: "run w server options (settle_all outcome ks) ?p = Some q"
      "phase q = phase ?p" "uncaught q = None" "stdout q = stdout ?p" "waits q = waits ?p"
      "served q = served ?p"
      "set (stderr ?p) \<subseteq> set (stderr q)"
      "\<forall>j. is_settled q j = (is_settled ?p j \<or> j \<in> set ks)"
    by blast
  have "run w server options (settle_all outcome (k # ks)) p = Some q"
    using s q(1) by (simp add: settle_all_def)
  moreover have "\<forall>j. is_settled q j = (is_settled p j \<or> j \<in> set (k # ks))"
    using q(8) by (auto simp: is_settled_def)
  ultimately show ?case
    using q(2-7) by auto
qed

lemma unsettled_props:
  "distinct (unsettled p ks) \<and> list_all (\<lambda>k. \<not> is_settled p k) (unsettled p ks)
   \<and> (\<forall>k \<in> set ks. is_settled p k \<or> k \<in> set (unsettled p ks))"
  by (auto simp: unsettled_def list_all_iff)

text \<open>
  A process that waits in \<^verbatim>\<open>Promise.allSettled\<close> exits with code 0 once the promises it
  waits for have settled.
\<close>

lemma drain_to_exit:
  assumes "phase p = Draining snapshot" and "uncaught p = None"
  shows "\<exists>q. run w server options (settle_all outcome (unsettled p snapshot) @ [AllSettled]) p = Some q
       \<and> phase q = Exited 0 \<and> uncaught q = None \<and> stdout q = stdout p \<and> waits q = waits p
       \<and> set (stderr p) \<subseteq> set (stderr q)
       \<and> list_all (is_settled q) snapshot"
proof -
  have r: "running p"
    using assms by (simp add: running_def)
  from unsettled_props [of p snapshot]
    run_settle_all [OF _ _ r, of "unsettled p snapshot" w server options outcome]
  obtain q where
    q: "run w server options (settle_all outcome (unsettled p snapshot)) p = Some q"
      "phase q = phase p" "uncaught q = None" "stdout q = stdout p" "waits q = waits p"
      "set (stderr p) \<subseteq> set (stderr q)"
      "\<forall>k. is_settled q k = (is_settled p k \<or> k \<in> set (unsettled p snapshot))"
    by blast
  have a: "list_all (is_settled q) snapshot"
    using q(7) unsettled_props [of p snapshot] by (auto simp: list_all_iff)
  have "step w server options AllSettled q = Some (q\<lparr>phase := Exited 0\<rparr>)"
    using q(2,3) a assms(1) by (simp add: step_def running_def)
  then have "run w server options (settle_all outcome (unsettled p snapshot) @ [AllSettled]) p
      = Some (q\<lparr>phase := Exited 0\<rparr>)"
    using q(1) by (simp add: run_append)
  moreover have "list_all (is_settled (q\<lparr>phase := Exited 0\<rparr>)) snapshot"
    using a by (simp add: list_all_iff is_settled_def)
  ultimately show ?thesis
    using q(3-6) by auto
qed

text \<open>
  The chain of a request that is being handled settles, prints a dispatch failure or
  writes the response, and the process goes on to exit with code 0.
\<close>

lemma chain_output:
  "stdout (chain w server options req p) =
     stdout p @ (case serve w server req options of
                   Inl err \<Rightarrow> []
                 | Inr res \<Rightarrow> fst (writeResponse w res (req_method req = ''HEAD'')))
   \<and> set (stderr p) \<subseteq> set (stderr (chain w server options req p))
   \<and> (case serve w server req options of
         Inl err \<Rightarrow> err \<in> set (stderr (chain w server options req p))
       | Inr res \<Rightarrow> True)"
  by (auto simp: chain_def split: sum.splits prod.splits option.splits)

lemma dispatch_to_exit:
  assumes "phase p = Handling" and "uncaught p = None" and "served p = req # rest"
  shows "\<exists>q. run w server options
             (ChainSettles # settle_all outcome (unsettled p (waits p)) @ [AllSettled]) p = Some q
       \<and> phase q = Exited 0 \<and> uncaught q = None
       \<and> list_all (is_settled q) (waits p)
       \<and> (case serve w server req options of
             Inl err \<Rightarrow> stdout q = stdout p \<and> err \<in> set (stderr q)
           | Inr res \<Rightarrow> stdout q = stdout p @ fst (writeResponse w res (req_method req = ''HEAD'')))"
proof -
  let ?p = "chain w server options req p"
  have s: "step w server options ChainSettles p = Some ?p"
    using assms by (simp add: step_def running_def)
  have u: "unsettled ?p (waits p) = unsettled p (waits p)"
    by (simp add: unsettled_def is_settled_def chain_frame)
  have "phase ?p = Draining (waits p)" and "uncaught ?p = None"
    using assms(2) by (simp_all add: chain_frame)
  from drain_to_exit [OF this, of w server options outcome] u obtain q where
    q: "run w server options (settle_all outcome (unsettled p (waits p)) @ [AllSettled]) ?p = Some q"
      "phase q = Exited 0" "uncaught q = None" "stdout q = stdout ?p"
      "set (stderr ?p) \<subseteq> set (stderr q)" "list_all (is_settled q) (waits p)"
    by auto
  have "run w server options
      (ChainSettles # settle_all outcome (unsettled p (waits p)) @ [AllSettled]) p = Some q"
    using s q(1) by simp
  then show ?thesis
    using q(2-6) chain_output [of w server options req p]
    by (auto split: sum.splits)
qed

lemma render_throws:
  "\<not> valid_arguments w opts \<Longrightarrow> \<exists>err. render w opts = Inl err"
  by (auto simp: render_def valid_arguments_def methods_def split: option.splits)

lemma render_returns:
  "valid_arguments w opts \<Longrightarrow> \<exists>options. render w opts = Inr options"
  by (auto simp: render_def valid_arguments_def methods_def split: option.splits)

text \<open>
  Claim C2, as the code has it. A process that has exited has exited with code 0, unless an
  exception was uncaught, and then with code 1. The arguments of the command line that are
  not valid make the action of \<^verbatim>\<open>render\<close> throw before \<^verbatim>\<open>handle\<close> is called: the process
  ends with code 1. With valid arguments \<^verbatim>\<open>handle\<close> is called and the events happen. When
  \<^verbatim>\<open>serve\<close> has been called and its chain has not settled, the chain settles, the
  registered promises settle, whatever their outcomes, and the process exits with code 0:
  after a response, which is then on standard output, and after a dispatch failure alike,
  which is then on standard error with nothing written on standard output.
\<close>

theorem exit_code_zero_also_after_dispatch_failure:
  "(cli_parse w server opts evs = Some p \<and> phase p = Exited c \<longrightarrow>
      c = (if uncaught p = None then 0 else 1))
   \<and> (cli_parse w server opts evs = Some p \<and> uncaught p \<noteq> None \<longrightarrow> phase p = Exited 1)
   \<and> (\<not> valid_arguments w opts \<longrightarrow>
        (\<exists>err. render w opts = Inl err
           \<and> cli_parse w server opts [] = Some (handle\<lparr>uncaught := Some err, phase := Exited 1\<rparr>)))
   \<and> (valid_arguments w opts \<longrightarrow>
        (\<exists>options. render w opts = Inr options
           \<and> cli_parse w server opts evs = run w server options evs handle))
   \<and> (run w server options evs handle = Some p \<and> phase p = Handling \<and> served p = req # rest \<longrightarrow>
        (\<exists>q. run w server options
                (ChainSettles # settle_all outcome (unsettled p (waits p)) @ [AllSettled]) p = Some q
            \<and> phase q = Exited 0 \<and> uncaught q = None
            \<and> (case serve w server req options of
                  Inl err \<Rightarrow> stdout q = stdout p \<and> err \<in> set (stderr q)
                | Inr res \<Rightarrow>
                    stdout q = stdout p @ fst (writeResponse w res (req_method req = ''HEAD'')))))"
proof -
  have a: "cli_parse w server opts evs = Some p \<and> phase p = Exited c \<longrightarrow>
      c = (if uncaught p = None then 0 else 1)"
    using cli_parse_exit_code_ok [of w server opts evs p]
    by (auto simp: exit_code_ok_def)
  have b: "cli_parse w server opts evs = Some p \<and> uncaught p \<noteq> None \<longrightarrow> phase p = Exited 1"
    using cli_parse_exit_code_ok [of w server opts evs p]
    by (auto simp: exit_code_ok_def split: phase.splits)
  have c: "\<not> valid_arguments w opts \<longrightarrow>
        (\<exists>err. render w opts = Inl err
           \<and> cli_parse w server opts [] = Some (handle\<lparr>uncaught := Some err, phase := Exited 1\<rparr>))"
    using render_throws [of w opts] by (auto simp: cli_parse_def)
  have d: "valid_arguments w opts \<longrightarrow>
        (\<exists>options. render w opts = Inr options
           \<and> cli_parse w server opts evs = run w server options evs handle)"
    using render_returns [of w opts] by (auto simp: cli_parse_def)
  have e: "run w server options evs handle = Some p \<and> phase p = Handling \<and> served p = req # rest \<longrightarrow>
        (\<exists>q. run w server options
                (ChainSettles # settle_all outcome (unsettled p (waits p)) @ [AllSettled]) p = Some q
            \<and> phase q = Exited 0 \<and> uncaught q = None
            \<and> (case serve w server req options of
                  Inl err \<Rightarrow> stdout q = stdout p \<and> err \<in> set (stderr q)
                | Inr res \<Rightarrow>
                    stdout q = stdout p @ fst (writeResponse w res (req_method req = ''HEAD''))))"
  proof (intro impI)
    assume h: "run w server options evs handle = Some p \<and> phase p = Handling
        \<and> served p = req # rest"
    then have "exit_code_ok p"
      using run_exit_code_ok handle_exit_code_ok by blast
    with h have "uncaught p = None"
      by (simp add: exit_code_ok_def)
    with h dispatch_to_exit [of p req rest w server options outcome] show
      "\<exists>q. run w server options
                (ChainSettles # settle_all outcome (unsettled p (waits p)) @ [AllSettled]) p = Some q
            \<and> phase q = Exited 0 \<and> uncaught q = None
            \<and> (case serve w server req options of
                  Inl err \<Rightarrow> stdout q = stdout p \<and> err \<in> set (stderr q)
                | Inr res \<Rightarrow>
                    stdout q = stdout p @ fst (writeResponse w res (req_method req = ''HEAD'')))"
      by blast
  qed
  from a b c d e show ?thesis
    by blast
qed

theorem exit_code_zero_also_after_dispatch_failure_witness:
  "map_option (\<lambda>p. (phase p, uncaught p, stdout p, stderr p))
     (cli_parse (disk [] []) routeless
        \<lparr>o_url = Some ''http://localhost/x'', o_method = Some ''get'', o_clientIp = None,
         o_static = True\<rparr>
        [Line (Cmd [''start-body'']), Line (Cmd [''end-body'']), ChainSettles, AllSettled]) =
   Some (Exited 0, None,
         [Status 404 [], Header ''content-type'' ''text/plain'', StartBody,
          Data ''NDA0IE5vdCBGb3VuZA=='', EndBody],
         [])
   \<and> map_option (\<lambda>p. (phase p, uncaught p, stdout p, stderr p))
     (cli_parse (disk [] []) throwing
        \<lparr>o_url = Some ''http://localhost/x'', o_method = Some ''get'', o_clientIp = None,
         o_static = True\<rparr>
        [Line (Cmd [''start-body'']), ChainSettles, AllSettled]) =
   Some (Exited 0, None, [], [Error ''boom''])
   \<and> map_option (\<lambda>p. (phase p, uncaught p, stdout p, stderr p))
     (cli_parse (disk [] []) routeless
        \<lparr>o_url = Some ''localhost'', o_method = Some ''GET'', o_clientIp = None,
         o_static = True\<rparr> []) =
   Some (Exited 1, Some (Error ''url option need to be a valid url.''), [], [])
   \<and> map_option (\<lambda>p. (phase p, uncaught p, stdout p, stderr p))
     (cli_parse (disk [] []) routeless
        \<lparr>o_url = Some ''http://localhost/x'', o_method = Some ''DELETE'', o_clientIp = None,
         o_static = True\<rparr> []) =
   Some (Exited 1, Some (Error ''invalid method: DELETE''), [], [])"
proof -
  let ?w = "disk [] []"
  let ?opts = "\<lparr>o_url = Some ''http://localhost/x'', o_method = Some ''get'', o_clientIp = None,
                o_static = True\<rparr>"
  let ?bad = "\<lparr>o_url = Some ''localhost'', o_method = Some ''GET'', o_clientIp = None,
               o_static = True\<rparr>"
  let ?options = "\<lparr>opt_method = ''GET'',
                   url = \<lparr>origin = ''http://localhost'', pathname = ''/x'', search = []\<rparr>,
                   clientIP = Some ''undefined'', static = True\<rparr>"
  let ?req = "\<lparr>req_method = ''GET'',
               req_url = \<lparr>origin = ''http://localhost'', pathname = ''/x'', search = []\<rparr>,
               req_headers = []\<rparr>"
  let ?s = "\<lparr>headers = [], bodyStart = True, aborted = False, pipe = [],
             served = [?req], uncaught = None, waits = [], settled = [], stderr = [],
             stdout = [], phase = Handling\<rparr>"
  have v: "valid_arguments ?w ?opts" and n: "\<not> valid_arguments ?w ?bad"
    by code_simp+
  have r: "run ?w throwing ?options [Line (Cmd [''start-body''])] handle = Some ?s"
    by code_simp
  have s: "phase ?s = Handling" "served ?s = ?req # []" "waits ?s = []"
    by simp_all
  have e: "serve ?w throwing ?req ?options = Inl (Error ''boom'')"
    by code_simp
  have u: "settle_all (\<lambda>k. None) (unsettled ?s []) = []"
    by code_simp
  have c1: "map_option (\<lambda>p. (phase p, uncaught p, stdout p, stderr p))
      (cli_parse ?w routeless ?opts
         [Line (Cmd [''start-body'']), Line (Cmd [''end-body'']), ChainSettles, AllSettled]) =
      Some (Exited 0, None,
         [Status 404 [], Header ''content-type'' ''text/plain'', StartBody,
          Data ''NDA0IE5vdCBGb3VuZA=='', EndBody],
         [])"
    by code_simp
  have c2: "map_option (\<lambda>p. (phase p, uncaught p, stdout p, stderr p))
      (cli_parse ?w throwing ?opts [Line (Cmd [''start-body'']), ChainSettles, AllSettled]) =
      Some (Exited 0, None, [], [Error ''boom''])"
    by code_simp
  have c3: "map_option (\<lambda>p. (phase p, uncaught p, stdout p, stderr p))
      (cli_parse ?w routeless ?bad []) =
      Some (Exited 1, Some (Error ''url option need to be a valid url.''), [], [])"
    by code_simp
  have c4: "map_option (\<lambda>p. (phase p, uncaught p, stdout p, stderr p))
      (cli_parse ?w routeless
         \<lparr>o_url = Some ''http://localhost/x'', o_method = Some ''DELETE'', o_clientIp = None,
          o_static = True\<rparr> []) =
      Some (Exited 1, Some (Error ''invalid method: DELETE''), [], [])"
    by code_simp
  have t: "\<exists>q. run ?w throwing ?options
        (ChainSettles # settle_all (\<lambda>k. None) (unsettled ?s (waits ?s)) @ [AllSettled]) ?s = Some q
      \<and> phase q = Exited 0 \<and> uncaught q = None
      \<and> (case serve ?w throwing ?req ?options of
            Inl err \<Rightarrow> stdout q = stdout ?s \<and> err \<in> set (stderr q)
          | Inr res \<Rightarrow>
              stdout q = stdout ?s @ fst (writeResponse ?w res (req_method ?req = ''HEAD'')))"
    using exit_code_zero_also_after_dispatch_failure
      [where w = ?w and server = throwing and options = ?options
         and evs = "[Line (Cmd [''start-body''])]" and p = ?s and req = ?req and rest = "[]"
         and outcome = "\<lambda>k. None" and opts = ?bad and c = 0]
      r s n
    by blast
  show ?thesis
    using t c1 c2 c3 c4 by simp
qed

text \<open>
  The claim as the specification words it has the exit code differ from 0 exactly after a
  dispatch failure or for arguments that are not valid. With a framework whose handler
  throws, the failure is printed, nothing is written, and the process exits with code 0.
  With valid arguments and no dispatch at all, a line that is not JSON ends the process
  with code 1.
\<close>

theorem exit_code_nonzero_on_dispatch_failure_counterexample:
  "serve (disk [] []) throwing (get_request ''/x'' [] [])
     \<lparr>opt_method = ''GET'',
      url = \<lparr>origin = ''http://localhost'', pathname = ''/x'', search = []\<rparr>,
      clientIP = Some ''undefined'', static = True\<rparr> =
     Inl (Error ''boom'')
   \<and> map_option (\<lambda>p. (phase p, stdout p, stderr p))
     (cli_parse (disk [] []) throwing
        \<lparr>o_url = Some ''http://localhost/x'', o_method = Some ''get'', o_clientIp = None,
         o_static = True\<rparr>
        [Line (Cmd [''start-body'']), Line (Cmd [''end-body'']), ChainSettles, AllSettled]) =
   Some (Exited 0, [], [Error ''boom''])
   \<and> map_option (\<lambda>p. (phase p, served p, uncaught p))
     (cli_parse (disk [] []) routeless
        \<lparr>o_url = Some ''http://localhost/x'', o_method = Some ''get'', o_clientIp = None,
         o_static = True\<rparr>
        [Line Malformed]) =
   Some (Exited 1, [], Some SyntaxError)"
  by code_simp

section \<open>The background promises\<close>

lemma step_drained:
  "step w server options ev p = Some q \<Longrightarrow> drained snapshot p \<Longrightarrow> drained snapshot q"
  by (cases ev)
    (auto simp: step_def running_def drained_def on_line_frame is_settled_def list_all_iff
            uncaught_exit_def
          split: if_splits phase.splits list.splits)

lemma run_drained:
  "run w server options evs p = Some q \<Longrightarrow> drained snapshot p \<Longrightarrow> drained snapshot q"
  by (induction evs arbitrary: p) (auto split: option.splits dest: step_drained)

lemma step_rejections_logged:
  assumes "step w server options ev p = Some q" and "rejections_logged p"
  shows "rejections_logged q"
proof (cases ev)
  case (Line l)
  with assms show ?thesis
    by (auto simp: step_def rejections_logged_def rejections_def on_line_frame
          uncaught_exit_def split: if_splits)
next
  case (WaitUntil k)
  with assms show ?thesis
    by (auto simp: step_def rejections_logged_def rejections_def list_all_iff split: if_splits)
next
  case (Settle k r)
  with assms show ?thesis
    by (auto simp: step_def rejections_logged_def rejections_def list_all_iff count_list_0_iff
             split: if_splits option.splits)
next
  case ChainSettles
  with assms show ?thesis
    by (auto simp: step_def rejections_logged_def rejections_def list_all_iff chain_def
             split: if_splits option.splits phase.splits list.splits sum.splits prod.splits)
next
  case AllSettled
  with assms show ?thesis
    by (auto simp: step_def rejections_logged_def rejections_def list_all_iff
             split: if_splits option.splits phase.splits)
qed

lemma run_rejections_logged:
  "run w server options evs p = Some q \<Longrightarrow> rejections_logged p \<Longrightarrow> rejections_logged q"
  by (induction evs arbitrary: p) (auto split: option.splits dest: step_rejections_logged)

lemma handle_rejections_logged: "rejections_logged handle"
  by (simp add: rejections_logged_def handle_def)

text \<open>
  Claim C9, as the code has it. Take a state \<open>p\<close> of the process that events have led to.
  If the chain of the request settles in \<open>p\<close> and the process has exited later, then either
  no exception was uncaught, the exit code is 0 and every promise that was registered with
  \<^verbatim>\<open>waitUntil\<close> before the chain settled (the promises of \<^verbatim>\<open>waits\<close> in \<open>p\<close>, which
  \<^verbatim>\<open>Promise.allSettled\<close> took) has settled, or a line made the listener throw and the exit
  code is 1; either way every rejection of a registered promise is on standard error. If
  \<^verbatim>\<open>serve\<close> has been called in \<open>p\<close> and its chain has not settled, then the chain
  settles, the registered promises that have not settled do so, each fulfilled or rejected
  as one likes, and the process exits with code 0. And in a running process a promise that
  is rejected is printed once for every time it was registered and leaves the process
  running, where it was.
\<close>

theorem exit_awaits_promises_registered_before_the_drain:
  assumes "run w server options pre handle = Some p"
  shows "(run w server options (ChainSettles # post) p = Some q \<and> phase q = Exited c \<longrightarrow>
            rejections_logged q
            \<and> (if uncaught q = None then c = 0 \<and> list_all (is_settled q) (waits p) else c = 1))
     \<and> (phase p = Handling \<and> served p = req # rest \<longrightarrow>
          (\<exists>q'. run w server options
                   (ChainSettles # settle_all outcome (unsettled p (waits p)) @ [AllSettled]) p
                 = Some q'
              \<and> phase q' = Exited 0 \<and> uncaught q' = None
              \<and> list_all (is_settled q') (waits p) \<and> rejections_logged q'))
     \<and> (running p \<and> \<not> is_settled p k \<longrightarrow>
          (\<exists>p'. step w server options (Settle k (Some err)) p = Some p'
              \<and> running p' \<and> phase p' = phase p
              \<and> stderr p' = stderr p @ replicate (count_list (waits p) k) err))"
proof -
  have l: "rejections_logged p"
    using run_rejections_logged [OF assms handle_rejections_logged] .
  have e: "exit_code_ok p"
    using run_exit_code_ok [OF assms handle_exit_code_ok] .
  have a: "run w server options (ChainSettles # post) p = Some q \<and> phase q = Exited c \<longrightarrow>
            rejections_logged q
            \<and> (if uncaught q = None then c = 0 \<and> list_all (is_settled q) (waits p) else c = 1)"
  proof (intro impI)
    assume h: "run w server options (ChainSettles # post) p = Some q \<and> phase q = Exited c"
    then obtain p' where s: "step w server options ChainSettles p = Some p'"
      and r: "run w server options post p' = Some q"
      by (auto split: option.splits)
    from s have "phase p' = Draining (waits p)"
      by (auto simp: step_def chain_frame split: if_splits phase.splits list.splits)
    then have "drained (waits p) p'"
      by (simp add: drained_def)
    moreover have "exit_code_ok q"
      using h run_exit_code_ok e by blast
    ultimately
    have "if uncaught q = None then c = 0 \<and> list_all (is_settled q) (waits p) else c = 1"
      using run_drained [OF r] h by (auto simp: drained_def exit_code_ok_def)
    moreover have "rejections_logged q"
      using h run_rejections_logged l by blast
    ultimately show "rejections_logged q
        \<and> (if uncaught q = None then c = 0 \<and> list_all (is_settled q) (waits p) else c = 1)"
      by simp
  qed
  have b: "phase p = Handling \<and> served p = req # rest \<longrightarrow>
          (\<exists>q'. run w server options
                   (ChainSettles # settle_all outcome (unsettled p (waits p)) @ [AllSettled]) p
                 = Some q'
              \<and> phase q' = Exited 0 \<and> uncaught q' = None
              \<and> list_all (is_settled q') (waits p) \<and> rejections_logged q')"
  proof (intro impI)
    assume h: "phase p = Handling \<and> served p = req # rest"
    with e have "uncaught p = None"
      by (simp add: exit_code_ok_def)
    with h dispatch_to_exit [of p req rest w server options outcome] obtain q' where
      q: "run w server options
            (ChainSettles # settle_all outcome (unsettled p (waits p)) @ [AllSettled]) p = Some q'"
        "phase q' = Exited 0" "uncaught q' = None" "list_all (is_settled q') (waits p)"
      by blast
    from run_rejections_logged [OF q(1) l] q show
      "\<exists>q'. run w server options
                   (ChainSettles # settle_all outcome (unsettled p (waits p)) @ [AllSettled]) p
                 = Some q'
              \<and> phase q' = Exited 0 \<and> uncaught q' = None
              \<and> list_all (is_settled q') (waits p) \<and> rejections_logged q'"
      by blast
  qed
  have c: "running p \<and> \<not> is_settled p k \<longrightarrow>
          (\<exists>p'. step w server options (Settle k (Some err)) p = Some p'
              \<and> running p' \<and> phase p' = phase p
              \<and> stderr p' = stderr p @ replicate (count_list (waits p) k) err)"
    by (auto simp: step_settle running_def)
  from a b c show ?thesis
    by blast
qed

theorem exit_awaits_promises_registered_before_the_drain_witness:
  "map_option (\<lambda>q. (phase q, waits q, settled q, stderr q))
     (run (disk [] []) routeless (get_options ''/x'' [])
        [Line (Cmd [''start-body'']), WaitUntil 1, WaitUntil 2, ChainSettles,
         Settle 2 (Some (Error ''flush failed'')), Settle 1 None, AllSettled] handle) =
   Some (Exited 0, [1, 2], [(2, Some (Error ''flush failed'')), (1, None)],
         [Error ''flush failed''])
   \<and> run (disk [] []) routeless (get_options ''/x'' [])
        [Line (Cmd [''start-body'']), WaitUntil 1, WaitUntil 2, ChainSettles,
         Settle 2 (Some (Error ''flush failed'')), AllSettled] handle = None
   \<and> map_option (\<lambda>q. (phase q, settled q, stderr q))
     (run (disk [] []) routeless (get_options ''/x'' [])
        ([Line (Cmd [''start-body'']), WaitUntil 1, WaitUntil 2]
         @ ChainSettles
           # settle_all (\<lambda>k. if k = 1 then Some (Error ''rejected'') else None)
               (unsettled handle [1, 2])
         @ [AllSettled]) handle) =
   Some (Exited 0, [(1, Some (Error ''rejected'')), (2, None)], [Error ''rejected''])"
proof -
  let ?w = "disk [] []"
  let ?options = "get_options ''/x'' []"
  let ?req = "\<lparr>req_method = ''GET'',
               req_url = \<lparr>origin = ''http://localhost'', pathname = ''/x'', search = []\<rparr>,
               req_headers = []\<rparr>"
  let ?out = "[Status 404 [], Header ''content-type'' ''text/plain'', StartBody,
               Data ''NDA0IE5vdCBGb3VuZA=='', EndBody]"
  let ?p = "\<lparr>headers = [], bodyStart = True, aborted = False, pipe = [],
             served = [?req], uncaught = None, waits = [1, 2], settled = [], stderr = [],
             stdout = [], phase = Handling\<rparr>"
  let ?q = "\<lparr>headers = [], bodyStart = True, aborted = False, pipe = [],
             served = [?req], uncaught = None, waits = [1, 2],
             settled = [(2, Some (Error ''flush failed'')), (1, None)],
             stderr = [Error ''flush failed''], stdout = ?out, phase = Exited 0\<rparr>"
  have a: "run ?w routeless ?options [Line (Cmd [''start-body'']), WaitUntil 1, WaitUntil 2] handle =
      Some ?p"
    by code_simp
  have b: "run ?w routeless ?options
        (ChainSettles # [Settle 2 (Some (Error ''flush failed'')), Settle 1 None, AllSettled]) ?p =
      Some ?q"
    by code_simp
  have s: "phase ?q = Exited 0" "phase ?p = Handling" "served ?p = ?req # []" "running ?p"
    "\<not> is_settled ?p 2"
    by (simp_all add: running_def is_settled_def)
  have c: "map_option (\<lambda>q. (phase q, waits q, settled q, stderr q))
      (run ?w routeless ?options
        [Line (Cmd [''start-body'']), WaitUntil 1, WaitUntil 2, ChainSettles,
         Settle 2 (Some (Error ''flush failed'')), Settle 1 None, AllSettled] handle) =
      Some (Exited 0, [1, 2], [(2, Some (Error ''flush failed'')), (1, None)],
         [Error ''flush failed''])"
    by code_simp
  have d: "run ?w routeless ?options
        [Line (Cmd [''start-body'']), WaitUntil 1, WaitUntil 2, ChainSettles,
         Settle 2 (Some (Error ''flush failed'')), AllSettled] handle = None"
    by code_simp
  have e: "map_option (\<lambda>q. (phase q, settled q, stderr q))
     (run ?w routeless ?options
        ([Line (Cmd [''start-body'']), WaitUntil 1, WaitUntil 2]
         @ ChainSettles
           # settle_all (\<lambda>k. if k = 1 then Some (Error ''rejected'') else None)
               (unsettled handle [1, 2])
         @ [AllSettled]) handle) =
     Some (Exited 0, [(1, Some (Error ''rejected'')), (2, None)], [Error ''rejected''])"
    by code_simp
  have t: "(run ?w routeless ?options
          (ChainSettles # [Settle 2 (Some (Error ''flush failed'')), Settle 1 None, AllSettled]) ?p
        = Some ?q \<and> phase ?q = Exited 0 \<longrightarrow>
            rejections_logged ?q
            \<and> (if uncaught ?q = None then (0::nat) = 0 \<and> list_all (is_settled ?q) (waits ?p)
                else (0::nat) = 1))
     \<and> (phase ?p = Handling \<and> served ?p = ?req # [] \<longrightarrow>
          (\<exists>q'. run ?w routeless ?options
                   (ChainSettles
                    # settle_all (\<lambda>k. if k = 1 then Some (Error ''rejected'') else None)
                        (unsettled ?p (waits ?p)) @ [AllSettled]) ?p
                 = Some q'
              \<and> phase q' = Exited 0 \<and> uncaught q' = None
              \<and> list_all (is_settled q') (waits ?p) \<and> rejections_logged q'))
     \<and> (running ?p \<and> \<not> is_settled ?p 2 \<longrightarrow>
          (\<exists>p'. step ?w routeless ?options (Settle 2 (Some (Error ''flush failed''))) ?p = Some p'
              \<and> running p' \<and> phase p' = phase ?p
              \<and> stderr p' = stderr ?p @ replicate (count_list (waits ?p) 2) (Error ''flush failed'')))"
    by (rule exit_awaits_promises_registered_before_the_drain [OF a])
  show ?thesis
    using t b s c d e by simp
qed

text \<open>
  The claim as the specification words it has the process wait for every promise
  registered while the request is handled. A promise registered after the chain has
  settled, here promise 2, registered by the work of promise 1 while the process waits for
  promise 1, is not among those \<^verbatim>\<open>Promise.allSettled\<close> took: the process exits with code 0
  while promise 2 is registered and has not settled. And a line that is not JSON, arriving
  while the process waits for promise 1, ends the process with code 1 at once.
\<close>

theorem exit_awaits_every_registered_promise_counterexample:
  "map_option (\<lambda>q. (phase q, waits q, is_settled q 1, is_settled q 2))
     (run (disk [] []) routeless (get_options ''/x'' [])
        [Line (Cmd [''start-body'']), WaitUntil 1, ChainSettles, WaitUntil 2,
         Settle 1 None, AllSettled] handle) =
   Some (Exited 0, [1, 2], True, False)
   \<and> map_option (\<lambda>q. (phase q, waits q, is_settled q 1))
     (run (disk [] []) routeless (get_options ''/x'' [])
        [Line (Cmd [''start-body'']), WaitUntil 1, ChainSettles, Line Malformed] handle) =
   Some (Exited 1, [1], False)"
  by code_simp

end
